theory Spec2Isabelle
  imports Main
begin

section \<open>Bako Vault CLI: the pending-transaction lifecycle\<close>

text \<open>
  A shallow embedding of the TypeScript sources: \<^verbatim>\<open>types.ts\<close>, \<^verbatim>\<open>utils/config.ts\<close>,
  \<^verbatim>\<open>services/vault.ts\<close>, \<^verbatim>\<open>services/transaction.ts\<close> and the commands
  \<^verbatim>\<open>create-tx\<close>, \<^verbatim>\<open>sign\<close> and \<^verbatim>\<open>send-tx\<close>.

  Conventions. A thrown \<^verbatim>\<open>Error\<close> is the \<open>Inl\<close> of a sum. The file system the code
  touches is explicit: the single file \<^verbatim>\<open>.pending-tx.json\<close> is the field
  \<open>pending_file\<close> of the state, the read-only configuration files are maps of the
  environment. The libraries the code calls (the Fuel wallet, the BakoSafe vault, the
  network) and the answers typed at a prompt are inputs of the model. JavaScript's
  truthiness tests are written out (\<open>undefined\<close>, \<open>0\<close> and the empty string are
  falsy). A JSON number is an \<open>int\<close>, a JavaScript string a \<open>string\<close>.
\<close>

subsection \<open>types.ts\<close>

datatype error =
    WalletNotFound string
  | NetworkNotFound string
  | JsonSyntaxError
  | MissingConfigObject
  | MissingSigners
  | SignaturesCountBelowOne
  | MissingVersion
  | SignaturesCountAboveSigners
  | MissingUrl
  | MissingAssetsETH
  | NoPendingTransactionFound
  | External string

record PredicateConfigurable =
  SIGNATURES_COUNT :: int
  SIGNERS :: "string list"
  HASH_PREDICATE :: "string option"

record WalletConfig =
  name :: string
  config :: PredicateConfigurable
  version :: string

record NetworkAssets =
  ETH :: string
  USDC :: "string option"

record NetworkConfig =
  network_name :: string
  url :: string
  assets :: NetworkAssets
  chainId :: "int option"
  explorerUrl :: "string option"

record VaultConfig = WalletConfig +
  network :: NetworkConfig

record TransactionInput =
  to :: string
  amount :: string
  assetId :: "string option"

record Signature =
  signer :: string
  signature :: string

text \<open>
  An element of the \<^verbatim>\<open>signatures\<close> array as it is at run time. \<^verbatim>\<open>types.ts\<close>
  declares the elements as \<^verbatim>\<open>Signature\<close> objects; the \<^verbatim>\<open>sign\<close> command pushes the
  string \<^verbatim>\<open>JSON.stringify({signer, signature})\<close>, so both shapes occur.
\<close>

datatype sig_json = SigObj Signature | SigStr string

record PendingTransaction =
  walletName :: string
  networkName :: string
  hashTxId :: string
  encodedTxId :: string
  txRequest :: string
  transaction :: TransactionInput
  createdAt :: string
  signatures :: "sig_json list"
  requiredSignatures :: int

subsection \<open>JavaScript helpers\<close>

text \<open>\<^verbatim>\<open>!s\<close> for an optional string: \<open>undefined\<close> and \<open>""\<close> are falsy.\<close>

fun truthy :: "string option \<Rightarrow> bool" where
  "truthy None = False"
| "truthy (Some s) = (s \<noteq> [])"

text \<open>\<^verbatim>\<open>a || b\<close> for an optional string \<open>a\<close> and a string \<open>b\<close>.\<close>

fun or_else :: "string option \<Rightarrow> string \<Rightarrow> string" where
  "or_else None d = d"
| "or_else (Some s) d = (if s = [] then d else s)"

text \<open>The property reads \<^verbatim>\<open>s.signer\<close> and \<^verbatim>\<open>s.signature\<close>: \<open>undefined\<close> on a string.\<close>

fun signer_of :: "sig_json \<Rightarrow> string option" where
  "signer_of (SigObj s) = Some (signer s)"
| "signer_of (SigStr _) = None"

fun signature_of :: "sig_json \<Rightarrow> string option" where
  "signature_of (SigObj s) = Some (signature s)"
| "signature_of (SigStr _) = None"

subsection \<open>utils/config.ts\<close>

text \<open>The content of a configuration file: text that \<^verbatim>\<open>JSON.parse\<close> rejects, or a value.\<close>

datatype 'a json_file = Unparsable | Json 'a

text \<open>
  What \<^verbatim>\<open>JSON.parse\<close> returns for a wallet file, before validation: every field may
  be missing.
\<close>

record PredicateFile =
  file_SIGNATURES_COUNT :: "int option"
  file_SIGNERS :: "string list option"
  file_HASH_PREDICATE :: "string option"

record WalletFile =
  file_config :: "PredicateFile option"
  file_version :: "string option"

record AssetsFile =
  file_ETH :: "string option"
  file_USDC :: "string option"

record NetworkFile =
  file_url :: "string option"
  file_assets :: "AssetsFile option"
  file_chainId :: "int option"
  file_explorerUrl :: "string option"

record TransactionFile =
  tf_to :: string
  tf_amount :: string
  tf_assetId :: "string option"

text \<open>The read-only files: \<^verbatim>\<open>wallets/<name>.json\<close>, \<^verbatim>\<open>networks/<name>.json\<close>.\<close>

record config_files =
  wallet_files :: "string \<Rightarrow> WalletFile json_file option"
  network_files :: "string \<Rightarrow> NetworkFile json_file option"

text \<open>
  The state the commands change: the file \<^verbatim>\<open>.pending-tx.json\<close> (\<open>None\<close> when it
  does not exist) and, to observe the calls of \<^verbatim>\<open>vault.send\<close>, the witness lists
  handed to the network so far. The file is written only by
  \<^verbatim>\<open>savePendingTransaction\<close>, as \<^verbatim>\<open>JSON.stringify\<close> of a record; the model keeps the
  record, which \<^verbatim>\<open>JSON.parse\<close> gives back.
\<close>

record world =
  pending_file :: "PendingTransaction option"
  submissions :: "string list list"

definition hasPendingTransaction :: "world \<Rightarrow> bool" where
  "hasPendingTransaction w = (pending_file w \<noteq> None)"

definition zero_address :: string where
  "zero_address = ''0x'' @ replicate 64 (CHR ''0'')"

text \<open>
  \<^verbatim>\<open>validateWalletConfig\<close>: the checks in the source's order. Where the source
  returns normally the model returns the validated configuration.
\<close>

definition validateWalletConfig :: "string \<Rightarrow> WalletFile \<Rightarrow> error + WalletConfig" where
  "validateWalletConfig nm f =
     (case file_config f of
        None \<Rightarrow> Inl MissingConfigObject
      | Some c \<Rightarrow>
          (case file_SIGNERS c of
             None \<Rightarrow> Inl MissingSigners
           | Some ss \<Rightarrow>
               if length ss = 0 then Inl MissingSigners
               else
                 (case file_SIGNATURES_COUNT c of
                    None \<Rightarrow> Inl SignaturesCountBelowOne
                  | Some n \<Rightarrow>
                      if n = 0 \<or> n < 1 then Inl SignaturesCountBelowOne
                      else if \<not> truthy (file_version f) then Inl MissingVersion
                      else
                        (let validSigners = filter (\<lambda>s. s \<noteq> zero_address) ss
                         in if n > int (length validSigners) then Inl SignaturesCountAboveSigners
                            else Inr \<lparr> name = nm,
                                       config = \<lparr> SIGNATURES_COUNT = n, SIGNERS = ss,
                                                  HASH_PREDICATE = file_HASH_PREDICATE c \<rparr>,
                                       version = or_else (file_version f) [] \<rparr>))))"

definition loadWalletConfig :: "'a config_files_scheme \<Rightarrow> string \<Rightarrow> error + WalletConfig" where
  "loadWalletConfig fs nm =
     (case wallet_files fs nm of
        None \<Rightarrow> Inl (WalletNotFound nm)
      | Some Unparsable \<Rightarrow> Inl JsonSyntaxError
      | Some (Json f) \<Rightarrow> validateWalletConfig nm f)"

definition validateNetworkConfig :: "string \<Rightarrow> NetworkFile \<Rightarrow> error + NetworkConfig" where
  "validateNetworkConfig nm f =
     (if \<not> truthy (file_url f) then Inl MissingUrl
      else
        (case file_assets f of
           None \<Rightarrow> Inl MissingAssetsETH
         | Some a \<Rightarrow>
             if \<not> truthy (file_ETH a) then Inl MissingAssetsETH
             else Inr \<lparr> network_name = nm, url = or_else (file_url f) [],
                        assets = \<lparr> ETH = or_else (file_ETH a) [], USDC = file_USDC a \<rparr>,
                        chainId = file_chainId f, explorerUrl = file_explorerUrl f \<rparr>))"

definition loadNetworkConfig :: "'a config_files_scheme \<Rightarrow> string \<Rightarrow> error + NetworkConfig" where
  "loadNetworkConfig fs nm =
     (case network_files fs nm of
        None \<Rightarrow> Inl (NetworkNotFound nm)
      | Some Unparsable \<Rightarrow> Inl JsonSyntaxError
      | Some (Json f) \<Rightarrow> validateNetworkConfig nm f)"

definition savePendingTransaction :: "PendingTransaction \<Rightarrow> world \<Rightarrow> world" where
  "savePendingTransaction pending w = w\<lparr> pending_file := Some pending \<rparr>"

definition loadPendingTransaction :: "world \<Rightarrow> error + PendingTransaction" where
  "loadPendingTransaction w =
     (case pending_file w of
        None \<Rightarrow> Inl NoPendingTransactionFound
      | Some pending \<Rightarrow> Inr pending)"

definition deletePendingTransaction :: "world \<Rightarrow> world" where
  "deletePendingTransaction w =
     (if hasPendingTransaction w then w\<lparr> pending_file := None \<rparr> else w)"

subsection \<open>The libraries\<close>

text \<open>
  A transaction request as the code uses it: its JSON form (\<^verbatim>\<open>tx.toJSON()\<close>) and
  its witnesses, which \<^verbatim>\<open>sendTransaction\<close> assigns.
\<close>

record tx =
  tx_json :: string
  witnesses :: "string list"

text \<open>
  The response of \<^verbatim>\<open>vault.send\<close>: its \<^verbatim>\<open>id\<close>, and what
  \<^verbatim>\<open>waitForResult()\<close> gives, an error or a result whose \<^verbatim>\<open>status\<close> may be missing.
\<close>

record tx_response =
  response_id :: string
  waitForResult :: "error + string option"

text \<open>
  The BakoSafe \<^verbatim>\<open>Vault\<close> object, by the members the code calls:
  \<^verbatim>\<open>vault.address.toB256()\<close>, \<^verbatim>\<open>vault.transaction({assets: [{assetId, amount, to}]})\<close>
  giving \<^verbatim>\<open>{tx, hashTxId}\<close>, \<^verbatim>\<open>vault.encodeSignature(signer, signature)\<close> and
  \<^verbatim>\<open>vault.send(tx)\<close>.
\<close>

record vault =
  address :: string
  vault_transaction :: "string \<Rightarrow> string \<Rightarrow> string \<Rightarrow> error + (tx \<times> string)"
  encodeSignature :: "string option \<Rightarrow> string option \<Rightarrow> error + string"
  send :: "tx \<Rightarrow> error + tx_response"

text \<open>
  The environment of one command invocation: the configuration files, the file named by
  \<^verbatim>\<open>create-tx --file\<close>, the clock, and the libraries: \<^verbatim>\<open>new Vault(new Provider(url),
  vaultConfig, version)\<close>, \<^verbatim>\<open>Wallet.fromPrivateKey(pk).address.toB256()\<close> and
  \<^verbatim>\<open>wallet.signMessage(message)\<close>.
\<close>

record env = config_files +
  tx_files :: "string \<Rightarrow> TransactionFile json_file option"
  now :: string
  newVault :: "string \<Rightarrow> PredicateConfigurable \<Rightarrow> string \<Rightarrow> error + vault"
  fromPrivateKey :: "string \<Rightarrow> error + string"
  signMessage :: "string \<Rightarrow> string \<Rightarrow> error + string"

subsection \<open>services/vault.ts\<close>

definition createVaultInstance :: "'a env_scheme \<Rightarrow> VaultConfig \<Rightarrow> error + vault" where
  "createVaultInstance env cfg =
     (let vaultConfig =
            \<lparr> SIGNATURES_COUNT = SIGNATURES_COUNT (config cfg),
              SIGNERS = SIGNERS (config cfg),
              HASH_PREDICATE =
                (if truthy (HASH_PREDICATE (config cfg)) then HASH_PREDICATE (config cfg)
                 else None) \<rparr>
      in newVault env (url (network cfg)) vaultConfig (version cfg))"

subsection \<open>services/transaction.ts\<close>

record CreateTxResult =
  result_hashTxId :: string
  vaultAddress :: string
  signersRequired :: int

definition createTransaction ::
  "'a env_scheme \<Rightarrow> VaultConfig \<Rightarrow> TransactionInput \<Rightarrow> world \<Rightarrow> (error + CreateTxResult) \<times> world"
where
  "createTransaction env cfg input w =
     (case createVaultInstance env cfg of
        Inl e \<Rightarrow> (Inl e, w)
      | Inr v \<Rightarrow>
          (let asset = or_else (assetId input) (ETH (assets (network cfg)))
           in case vault_transaction v asset (amount input) (to input) of
                Inl e \<Rightarrow> (Inl e, w)
              | Inr (t, h) \<Rightarrow>
                  (let pending =
                         \<lparr> walletName = name cfg,
                           networkName = network_name (network cfg),
                           hashTxId = h,
                           encodedTxId = h,
                           txRequest = tx_json t,
                           transaction = input,
                           createdAt = now env,
                           signatures = [],
                           requiredSignatures = SIGNATURES_COUNT (config cfg) \<rparr>
                   in (Inr \<lparr> result_hashTxId = h, vaultAddress = address v,
                              signersRequired = SIGNATURES_COUNT (config cfg) \<rparr>,
                       savePendingTransaction pending w))))"

record SendTxResult =
  transactionId :: string
  status :: string

text \<open>
  The loop that builds the witnesses: one \<^verbatim>\<open>vault.encodeSignature(sig.signer,
  sig.signature)\<close> for each element, in order; an exception ends it.
\<close>

fun encode_witnesses :: "vault \<Rightarrow> sig_json list \<Rightarrow> error + string list" where
  "encode_witnesses v [] = Inr []"
| "encode_witnesses v (s # ss) =
     (case encodeSignature v (signer_of s) (signature_of s) of
        Inl e \<Rightarrow> Inl e
      | Inr encoded \<Rightarrow>
          (case encode_witnesses v ss of
             Inl e \<Rightarrow> Inl e
           | Inr rest \<Rightarrow> Inr (encoded # rest)))"

definition sendTransaction ::
  "'a env_scheme \<Rightarrow> VaultConfig \<Rightarrow> sig_json list \<Rightarrow> world \<Rightarrow> (error + SendTxResult) \<times> world"
where
  "sendTransaction env cfg sigs w =
     (case createVaultInstance env cfg of
        Inl e \<Rightarrow> (Inl e, w)
      | Inr v \<Rightarrow>
          (case loadPendingTransaction w of
             Inl e \<Rightarrow> (Inl e, w)
           | Inr pending \<Rightarrow>
               (let asset = or_else (assetId (transaction pending)) (ETH (assets (network cfg)))
                in case vault_transaction v asset (amount (transaction pending))
                          (to (transaction pending)) of
                     Inl e \<Rightarrow> (Inl e, w)
                   | Inr (t, h) \<Rightarrow>
                       (case encode_witnesses v sigs of
                          Inl e \<Rightarrow> (Inl e, w)
                        | Inr ws \<Rightarrow>
                            (let t' = t\<lparr> witnesses := ws \<rparr>;
                                 w' = w\<lparr> submissions := submissions w @ [witnesses t'] \<rparr>
                             in case send v t' of
                                  Inl e \<Rightarrow> (Inl e, w')
                                | Inr response \<Rightarrow>
                                    (case waitForResult response of
                                       Inl e \<Rightarrow> (Inl e, w')
                                     | Inr st \<Rightarrow>
                                         (Inr \<lparr> transactionId = response_id response,
                                                 status = or_else st ''success'' \<rparr>,
                                          deletePendingTransaction w')))))))"

subsection \<open>commands/create-tx.ts\<close>

record CreateTxOptions =
  opt_wallet :: "string option"
  opt_network :: "string option"
  opt_to :: "string option"
  opt_amount :: "string option"
  opt_asset :: "string option"
  opt_file :: "string option"

text \<open>
  What the command reports. \<open>KeptExisting\<close> is the refusal to replace a pending
  transaction; \<open>CreateRejected\<close> is an exception outside the \<^verbatim>\<open>try\<close> block (the
  \<^verbatim>\<open>JSON.parse\<close> of the transaction file).
\<close>

datatype create_outcome =
    KeptExisting
  | MissingWallet
  | MissingNetwork
  | FileNotFound string
  | MissingToAmount
  | CreateRejected error
  | CreateFailed error
  | Created CreateTxResult

definition joinVaultConfig :: "WalletConfig \<Rightarrow> NetworkConfig \<Rightarrow> VaultConfig" where
  "joinVaultConfig walletConfig networkConfig =
     \<lparr> name = name walletConfig, config = config walletConfig,
       version = version walletConfig, network = networkConfig \<rparr>"

text \<open>The transaction details: from \<^verbatim>\<open>--file\<close>, else from \<^verbatim>\<open>--to\<close> and \<^verbatim>\<open>--amount\<close>.\<close>

definition txInput_of :: "'a env_scheme \<Rightarrow> CreateTxOptions \<Rightarrow> create_outcome + TransactionInput" where
  "txInput_of env options =
     (if truthy (opt_file options) then
        (case tx_files env (or_else (opt_file options) []) of
           None \<Rightarrow> Inl (FileNotFound (or_else (opt_file options) []))
         | Some Unparsable \<Rightarrow> Inl (CreateRejected JsonSyntaxError)
         | Some (Json txFile) \<Rightarrow>
             Inr \<lparr> to = tf_to txFile, amount = tf_amount txFile, assetId = tf_assetId txFile \<rparr>)
      else if truthy (opt_to options) \<and> truthy (opt_amount options) then
        Inr \<lparr> to = or_else (opt_to options) [], amount = or_else (opt_amount options) [],
              assetId = opt_asset options \<rparr>
      else Inl MissingToAmount)"

text \<open>
  \<open>replace\<close> is the answer to \<^verbatim>\<open>Replace the pending transaction?\<close>, asked only when a
  pending transaction exists.
\<close>

definition createTx :: "'a env_scheme \<Rightarrow> CreateTxOptions \<Rightarrow> bool \<Rightarrow> world \<Rightarrow> create_outcome \<times> world" where
  "createTx env options replace w =
     (if hasPendingTransaction w \<and> \<not> replace then (KeptExisting, w)
      else
        (let w1 = (if hasPendingTransaction w then deletePendingTransaction w else w)
         in if \<not> truthy (opt_wallet options) then (MissingWallet, w1)
            else if \<not> truthy (opt_network options) then (MissingNetwork, w1)
            else
              (case txInput_of env options of
                 Inl out \<Rightarrow> (out, w1)
               | Inr txInput \<Rightarrow>
                   (case loadWalletConfig env (or_else (opt_wallet options) []) of
                      Inl e \<Rightarrow> (CreateFailed e, w1)
                    | Inr walletConfig \<Rightarrow>
                        (case loadNetworkConfig env (or_else (opt_network options) []) of
                           Inl e \<Rightarrow> (CreateFailed e, w1)
                         | Inr networkConfig \<Rightarrow>
                             (case createTransaction env
                                     (joinVaultConfig walletConfig networkConfig) txInput w1 of
                                (Inl e, w2) \<Rightarrow> (CreateFailed e, w2)
                              | (Inr result, w2) \<Rightarrow> (Created result, w2)))))))"

subsection \<open>JSON.stringify of a signature\<close>

text \<open>
  \<^verbatim>\<open>JSON.stringify\<close> quotes a string: the short escapes for backspace, tab, newline,
  form feed, carriage return, the double quote and the backslash, \<^verbatim>\<open>\u00XX\<close> for the
  other characters below \<open>0x20\<close>, and every other character as it is. A hexadecimal
  digit is \<^verbatim>\<open>0\<close> to \<^verbatim>\<open>9\<close> (from code 48) or \<^verbatim>\<open>a\<close> to \<^verbatim>\<open>f\<close> (from code 97).
\<close>

definition hex_digit :: "nat \<Rightarrow> char" where
  "hex_digit n =
     (let d = n mod 16 in if d < 10 then char_of (48 + d) else char_of (87 + d))"

definition short_escape :: "char \<Rightarrow> char option" where
  "short_escape c =
     (if c = CHR 0x08 then Some CHR ''b''
      else if c = CHR 0x09 then Some CHR ''t''
      else if c = CHR 0x0A then Some CHR ''n''
      else if c = CHR 0x0C then Some CHR ''f''
      else if c = CHR 0x0D then Some CHR ''r''
      else if c = CHR 0x22 then Some (CHR 0x22)
      else if c = CHR 0x5C then Some (CHR 0x5C)
      else None)"

definition json_escape :: "char \<Rightarrow> string" where
  "json_escape c =
     (case short_escape c of
        Some x \<Rightarrow> [CHR 0x5C, x]
      | None \<Rightarrow>
          if (of_char c :: nat) < 32 then
            [CHR 0x5C, CHR ''u'', CHR ''0'', CHR ''0'',
             hex_digit (of_char c div 16), hex_digit (of_char c mod 16)]
          else [c])"

definition QuoteJSONString :: "string \<Rightarrow> string" where
  "QuoteJSONString s = CHR 0x22 # concat (map json_escape s) @ [CHR 0x22]"

text \<open>\<^verbatim>\<open>JSON.stringify({ signer: signerAddress, signature })\<close>.\<close>

definition stringify_signature :: "Signature \<Rightarrow> string" where
  "stringify_signature s =
     ''{'' @ QuoteJSONString ''signer'' @ '':'' @ QuoteJSONString (signer s) @ '','' @
     QuoteJSONString ''signature'' @ '':'' @ QuoteJSONString (signature s) @ ''}''"

subsection \<open>commands/sign.ts\<close>

record SignOptions =
  pk :: "string option"

text \<open>
  What the command reports. \<open>NeedMore k\<close> is the branch below the threshold, with
  \<open>k = requiredSignatures - currentSignatures\<close>; the three \<open>Threshold\<close> outcomes are
  the branch \<^verbatim>\<open>Threshold reached! Ready to send.\<close>, which ends with the transaction
  sent, with the send failed, or with the send declined (the last two print the manual
  send command for the signature). \<open>SignFailed\<close> is the outer \<^verbatim>\<open>catch\<close>,
  \<open>SignRejected\<close> an exception outside it.
\<close>

datatype sign_outcome =
    SignNoPending
  | SignRejected error
  | SignFailed error
  | NeedMore int
  | ThresholdSent SendTxResult
  | ThresholdSendFailed error Signature
  | ThresholdNotSent Signature

text \<open>
  \<open>typed_pk\<close> is the key typed at the prompt (asked when \<^verbatim>\<open>--pk\<close> is missing),
  \<open>sendNow\<close> the answer to \<^verbatim>\<open>Send transaction now?\<close>.
\<close>

definition sign :: "'a env_scheme \<Rightarrow> SignOptions \<Rightarrow> string \<Rightarrow> bool \<Rightarrow> world \<Rightarrow> sign_outcome \<times> world" where
  "sign env options typed_pk sendNow w =
     (if \<not> hasPendingTransaction w then (SignNoPending, w)
      else
        (case loadPendingTransaction w of
           Inl e \<Rightarrow> (SignRejected e, w)
         | Inr pending \<Rightarrow>
             (let privateKey = or_else (pk options) typed_pk
              in case fromPrivateKey env privateKey of
                   Inl e \<Rightarrow> (SignFailed e, w)
                 | Inr signerAddress \<Rightarrow>
                     (case signMessage env privateKey (hashTxId pending) of
                        Inl e \<Rightarrow> (SignFailed e, w)
                      | Inr sg \<Rightarrow>
                          (let currentSignatures = int (length (signatures pending)) + 1;
                               required = requiredSignatures pending;
                               new = \<lparr> signer = signerAddress, signature = sg \<rparr>
                           in if currentSignatures \<ge> required then
                                (if sendNow then
                                   (case loadWalletConfig env (walletName pending) of
                                      Inl e \<Rightarrow> (ThresholdSendFailed e new, w)
                                    | Inr walletConfig \<Rightarrow>
                                        (case loadNetworkConfig env (networkName pending) of
                                           Inl e \<Rightarrow> (ThresholdSendFailed e new, w)
                                         | Inr networkConfig \<Rightarrow>
                                             (case sendTransaction env
                                                     (joinVaultConfig walletConfig networkConfig)
                                                     [SigObj new] w of
                                                (Inl e, w') \<Rightarrow> (ThresholdSendFailed e new, w')
                                              | (Inr result, w') \<Rightarrow> (ThresholdSent result, w'))))
                                 else (ThresholdNotSent new, w))
                              else
                                (let sigEntry = SigStr (stringify_signature new)
                                 in if sigEntry \<notin> set (signatures pending) then
                                      (NeedMore (required - currentSignatures),
                                       savePendingTransaction
                                         (pending\<lparr> signatures := signatures pending @ [sigEntry] \<rparr>) w)
                                    else (NeedMore (required - currentSignatures), w)))))))"

text \<open>A sequence of \<^verbatim>\<open>sign\<close> invocations, each with its environment and its answers.\<close>

type_synonym 'a sign_call = "'a env_scheme \<times> SignOptions \<times> string \<times> bool"

fun sign_all :: "'a sign_call list \<Rightarrow> world \<Rightarrow> world" where
  "sign_all [] w = w"
| "sign_all ((env, options, typed_pk, sendNow) # calls) w =
     sign_all calls (snd (sign env options typed_pk sendNow w))"

text \<open>
  What an invocation signs with, for the hash \<open>h\<close>: the signer address and the
  signature the libraries return for its private key, when both calls return.
\<close>

definition presented :: "'a sign_call \<Rightarrow> string \<Rightarrow> Signature option" where
  "presented call h =
     (case call of
        (env, options, typed_pk, sendNow) \<Rightarrow>
          (let privateKey = or_else (pk options) typed_pk
           in case fromPrivateKey env privateKey of
                Inl e \<Rightarrow> None
              | Inr signerAddress \<Rightarrow>
                  (case signMessage env privateKey h of
                     Inl e \<Rightarrow> None
                   | Inr sg \<Rightarrow> Some \<lparr> signer = signerAddress, signature = sg \<rparr>)))"

text \<open>The signatures a sequence of invocations presents, in order.\<close>

definition presented_all :: "'a sign_call list \<Rightarrow> string \<Rightarrow> Signature list" where
  "presented_all calls h = List.map_filter (\<lambda>call. presented call h) calls"

text \<open>The persisted form of a signature: the string \<^verbatim>\<open>sign\<close> pushes.\<close>

definition sig_entry :: "Signature \<Rightarrow> sig_json" where
  "sig_entry s = SigStr (stringify_signature s)"

text \<open>The outcomes of the branch \<^verbatim>\<open>Threshold reached! Ready to send.\<close>\<close>

fun threshold_reached :: "sign_outcome \<Rightarrow> bool" where
  "threshold_reached (ThresholdSent r) = True"
| "threshold_reached (ThresholdSendFailed e s) = True"
| "threshold_reached (ThresholdNotSent s) = True"
| "threshold_reached _ = False"

subsection \<open>commands/send-tx.ts\<close>

text \<open>
  The options object the entry point passes: \<^verbatim>\<open>index.ts\<close> declares \<^verbatim>\<open>--network\<close>,
  \<^verbatim>\<open>--signer\<close> and \<^verbatim>\<open>--signature\<close> for \<^verbatim>\<open>send-tx\<close>.
\<close>

record SendTxOptions =
  opt_send_network :: "string option"
  opt_signer :: "string option"
  opt_signature :: "string option"

text \<open>
  What the command reports. \<open>InsufficientSignatures have need\<close> is the message
  \<^verbatim>\<open>Need <need> unique signatures, got <have>\<close>.
\<close>

datatype send_outcome =
    SendNoPending
  | SendRejected error
  | InsufficientSignatures int int
  | SendCancelled
  | SendFailed error
  | Sent SendTxResult

text \<open>\<^verbatim>\<open>new Set(signatures.map((s) => s.signer)).size\<close>.\<close>

definition uniqueCount :: "sig_json list \<Rightarrow> nat" where
  "uniqueCount sigs = length (remdups (map signer_of sigs))"

text \<open>
  The repository holds two versions of the command \<^verbatim>\<open>sendTx\<close>. They differ in the
  signatures they send and in the count they check; what follows the check is the same in
  both, the confirmation prompt and the \<^verbatim>\<open>try\<close> block, and is written once.
\<close>

definition confirm_and_send ::
  "'a env_scheme \<Rightarrow> SendTxOptions \<Rightarrow> bool \<Rightarrow> PendingTransaction \<Rightarrow> sig_json list \<Rightarrow> world \<Rightarrow>
   send_outcome \<times> world"
where
  "confirm_and_send env options confirm pending sigs w =
     (if \<not> confirm then (SendCancelled, w)
      else
        (case loadWalletConfig env (walletName pending) of
           Inl e \<Rightarrow> (SendFailed e, w)
         | Inr walletConfig \<Rightarrow>
             (case loadNetworkConfig env
                     (or_else (opt_send_network options) (networkName pending)) of
                Inl e \<Rightarrow> (SendFailed e, w)
              | Inr networkConfig \<Rightarrow>
                  (case sendTransaction env (joinVaultConfig walletConfig networkConfig) sigs w of
                     (Inl e, w') \<Rightarrow> (SendFailed e, w')
                   | (Inr result, w') \<Rightarrow> (Sent result, w')))))"

text \<open>
  \<^verbatim>\<open>sendTx\<close> of \<^verbatim>\<open>src/unnamed/part_001\<close> (module \<^verbatim>\<open>commands/send-tx\<close>), the
  version that sends the persisted signatures; its options type declares \<^verbatim>\<open>network\<close>
  only. \<open>confirm\<close> is the answer to \<^verbatim>\<open>Send transaction to blockchain?\<close>.
\<close>

definition sendTx :: "'a env_scheme \<Rightarrow> SendTxOptions \<Rightarrow> bool \<Rightarrow> world \<Rightarrow> send_outcome \<times> world" where
  "sendTx env options confirm w =
     (if \<not> hasPendingTransaction w then (SendNoPending, w)
      else
        (case loadPendingTransaction w of
           Inl e \<Rightarrow> (SendRejected e, w)
         | Inr pending \<Rightarrow>
             (let sigs = signatures pending;
                  have = uniqueCount sigs
              in if int have < requiredSignatures pending then
                   (InsufficientSignatures (int have) (requiredSignatures pending), w)
                 else confirm_and_send env options confirm pending sigs w)))"

text \<open>
  \<^verbatim>\<open>sendTx\<close> of \<^verbatim>\<open>src/commands/send-tx.ts\<close>, the other version: the signatures
  come from \<^verbatim>\<open>--signer\<close> and \<^verbatim>\<open>--signature\<close>, or are typed at the prompt, one for
  each required signature (\<open>typed i\<close> is the \<open>i\<close>-th answer the prompt accepts); the
  persisted signatures are not read. Here \<open>InsufficientSignatures\<close> counts the entries
  given.
\<close>

definition sendTx_given ::
  "'a env_scheme \<Rightarrow> SendTxOptions \<Rightarrow> (nat \<Rightarrow> Signature) \<Rightarrow> bool \<Rightarrow> world \<Rightarrow> send_outcome \<times> world"
where
  "sendTx_given env options typed confirm w =
     (if \<not> hasPendingTransaction w then (SendNoPending, w)
      else
        (case loadPendingTransaction w of
           Inl e \<Rightarrow> (SendRejected e, w)
         | Inr pending \<Rightarrow>
             (let sigs =
                    (if truthy (opt_signer options) \<and> truthy (opt_signature options) then
                       [SigObj \<lparr> signer = or_else (opt_signer options) [],
                                 signature = or_else (opt_signature options) [] \<rparr>]
                     else map (\<lambda>i. SigObj (typed i)) [0 ..< nat (requiredSignatures pending)])
              in if int (length sigs) < requiredSignatures pending then
                   (InsufficientSignatures (int (length sigs)) (requiredSignatures pending), w)
                 else confirm_and_send env options confirm pending sigs w)))"

subsection \<open>Example inputs\<close>

text \<open>
  A wallet \<^verbatim>\<open>w\<close> with two signers and a network \<^verbatim>\<open>n\<close>; a vault whose
  \<^verbatim>\<open>send\<close> returns what it is given as \<open>sent\<close>; a signing library whose signatures
  carry the tag \<open>tag\<close>.
\<close>

definition ex_wallet_file :: WalletFile where
  "ex_wallet_file =
     \<lparr> file_config = Some \<lparr> file_SIGNATURES_COUNT = Some 2,
                             file_SIGNERS = Some [''0xaddr_k1'', ''0xaddr_k2''],
                             file_HASH_PREDICATE = None \<rparr>,
       file_version = Some ''0xv1'' \<rparr>"

definition ex_network_file :: NetworkFile where
  "ex_network_file =
     \<lparr> file_url = Some ''https://testnet.fuel.network/v1/graphql'',
       file_assets = Some \<lparr> file_ETH = Some ''0xf8f8'', file_USDC = None \<rparr>,
       file_chainId = None, file_explorerUrl = None \<rparr>"

definition ex_tx :: tx where
  "ex_tx = \<lparr> tx_json = ''{}'', witnesses = [] \<rparr>"

definition ex_response :: tx_response where
  "ex_response = \<lparr> response_id = ''0xid'', waitForResult = Inr (Some ''success'') \<rparr>"

definition ex_vault :: "error + tx_response \<Rightarrow> vault" where
  "ex_vault sent =
     \<lparr> address = ''0xvault'',
       vault_transaction = (\<lambda>asset amt rcpt. Inr (ex_tx, ''0xhash'')),
       encodeSignature = (\<lambda>s g. Inr (or_else s ''undefined'' @ '':'' @ or_else g ''undefined'')),
       send = (\<lambda>t. sent) \<rparr>"

definition ex_env :: "error + tx_response \<Rightarrow> string \<Rightarrow> env" where
  "ex_env sent tag =
     \<lparr> wallet_files = (\<lambda>n. if n = ''w'' then Some (Json ex_wallet_file) else None),
       network_files = (\<lambda>n. if n = ''n'' then Some (Json ex_network_file) else None),
       tx_files = (\<lambda>f. None),
       now = ''2025-01-01T00:00:00.000Z'',
       newVault = (\<lambda>u c v. Inr (ex_vault sent)),
       fromPrivateKey = (\<lambda>k. Inr (''0xaddr_'' @ k)),
       signMessage = (\<lambda>k m. Inr (tag @ k)) \<rparr>"

definition ex_input :: TransactionInput where
  "ex_input = \<lparr> to = ''0xrecipient'', amount = ''0.001'', assetId = None \<rparr>"

definition ex_pending :: "int \<Rightarrow> sig_json list \<Rightarrow> PendingTransaction" where
  "ex_pending required sigs =
     \<lparr> walletName = ''w'', networkName = ''n'', hashTxId = ''0xhash'', encodedTxId = ''0xhash'',
       txRequest = ''{}'', transaction = ex_input, createdAt = ''2025-01-01T00:00:00.000Z'',
       signatures = sigs, requiredSignatures = required \<rparr>"

definition ex_world :: "int \<Rightarrow> sig_json list \<Rightarrow> world" where
  "ex_world required sigs = \<lparr> pending_file = Some (ex_pending required sigs), submissions = [] \<rparr>"

definition empty_world :: world where
  "empty_world = \<lparr> pending_file = None, submissions = [] \<rparr>"

definition ex_create_options :: CreateTxOptions where
  "ex_create_options =
     \<lparr> opt_wallet = Some ''w'', opt_network = Some ''n'', opt_to = Some ''0xrecipient'',
       opt_amount = Some ''0.001'', opt_asset = None, opt_file = None \<rparr>"

definition ex_send_options :: SendTxOptions where
  "ex_send_options = \<lparr> opt_send_network = None, opt_signer = None, opt_signature = None \<rparr>"

definition sig_k1 :: Signature where
  "sig_k1 = \<lparr> signer = ''0xaddr_k1'', signature = ''0xsig_k1'' \<rparr>"

definition sig_k2 :: Signature where
  "sig_k2 = \<lparr> signer = ''0xaddr_k2'', signature = ''0xsig_k2'' \<rparr>"

text \<open>An invocation of \<^verbatim>\<open>sign --pk k\<close> whose signatures carry the tag \<open>tag\<close>.\<close>

definition ex_call :: "string \<Rightarrow> string \<Rightarrow> bool \<Rightarrow> unit sign_call" where
  "ex_call tag k sendNow = (ex_env (Inr ex_response) tag, \<lparr> pk = Some k \<rparr>, [], sendNow)"

definition ex_sig :: "string \<Rightarrow> string \<Rightarrow> Signature" where
  "ex_sig tag k = \<lparr> signer = ''0xaddr_'' @ k, signature = tag @ k \<rparr>"

definition ex_config :: VaultConfig where
  "ex_config =
     \<lparr> name = ''w'',
       config = \<lparr> SIGNATURES_COUNT = 2, SIGNERS = [''0xaddr_k1'', ''0xaddr_k2''],
                  HASH_PREDICATE = None \<rparr>,
       version = ''0xv1'',
       network = \<lparr> network_name = ''n'', url = ''https://testnet.fuel.network/v1/graphql'',
                   assets = \<lparr> ETH = ''0xf8f8'', USDC = None \<rparr>, chainId = None,
                   explorerUrl = None \<rparr> \<rparr>"

definition ex_encode :: "sig_json \<Rightarrow> string" where
  "ex_encode s = or_else (signer_of s) ''undefined'' @ '':'' @ or_else (signature_of s) ''undefined''"

text \<open>Wallet files for the validation: \<open>ex_files f\<close> holds \<open>f\<close> as \<^verbatim>\<open>wallets/w.json\<close>.\<close>

definition ex_files :: "WalletFile \<Rightarrow> config_files" where
  "ex_files f =
     \<lparr> wallet_files = (\<lambda>n. if n = ''w'' then Some (Json f) else None),
       network_files = (\<lambda>n. None) \<rparr>"

definition ex_wallet :: "int \<Rightarrow> string list \<Rightarrow> string option \<Rightarrow> WalletFile" where
  "ex_wallet n ss v =
     \<lparr> file_config = Some \<lparr> file_SIGNATURES_COUNT = Some n, file_SIGNERS = Some ss,
                             file_HASH_PREDICATE = None \<rparr>,
       file_version = v \<rparr>"

section \<open>Properties\<close>

subsection \<open>Evaluating the examples\<close>

lemma length_zero_address: "length zero_address = 66"
  by (simp add: zero_address_def)

lemma not_zero_address: "length s \<noteq> 66 \<Longrightarrow> s \<noteq> zero_address"
  using length_zero_address by auto

lemma ex_loadWallet:
  "loadWalletConfig (ex_env sent tag) ''w'' =
     Inr \<lparr> name = ''w'',
           config = \<lparr> SIGNATURES_COUNT = 2, SIGNERS = [''0xaddr_k1'', ''0xaddr_k2''],
                      HASH_PREDICATE = None \<rparr>,
           version = ''0xv1'' \<rparr>"
  by (simp add: loadWalletConfig_def ex_env_def ex_wallet_file_def validateWalletConfig_def
      not_zero_address)

lemma ex_loadNetwork:
  "loadNetworkConfig (ex_env sent tag) ''n'' =
     Inr \<lparr> network_name = ''n'', url = ''https://testnet.fuel.network/v1/graphql'',
           assets = \<lparr> ETH = ''0xf8f8'', USDC = None \<rparr>, chainId = None, explorerUrl = None \<rparr>"
  by (simp add: loadNetworkConfig_def ex_env_def ex_network_file_def validateNetworkConfig_def)

lemma ex_pending_fields:
  "signatures (ex_pending r ss) = ss"
  "requiredSignatures (ex_pending r ss) = r"
  "walletName (ex_pending r ss) = ''w''"
  "networkName (ex_pending r ss) = ''n''"
  "hashTxId (ex_pending r ss) = ''0xhash''"
  "transaction (ex_pending r ss) = ex_input"
  by (simp_all add: ex_pending_def)

lemma ex_createVault: "createVaultInstance (ex_env sent tag) cfg = Inr (ex_vault sent)"
  by (simp add: createVaultInstance_def ex_env_def)

lemma ex_encode_witnesses: "encode_witnesses (ex_vault sent) sigs = Inr (map ex_encode sigs)"
  by (induction sigs) (simp_all add: ex_vault_def ex_encode_def)

lemma ex_vault_fields:
  "vault_transaction (ex_vault sent) a m t = Inr (ex_tx, ''0xhash'')"
  "send (ex_vault sent) t' = sent"
  "waitForResult ex_response = Inr (Some ''success'')"
  "response_id ex_response = ''0xid''"
  by (simp_all add: ex_vault_def ex_response_def)

lemma ex_sendTransaction_ok:
  "pending_file w = Some p \<Longrightarrow>
   sendTransaction (ex_env (Inr ex_response) tag) cfg sigs w =
     (Inr \<lparr> transactionId = ''0xid'', status = ''success'' \<rparr>,
      \<lparr> pending_file = None, submissions = submissions w @ [map ex_encode sigs] \<rparr>)"
  by (simp add: sendTransaction_def ex_createVault loadPendingTransaction_def
      ex_encode_witnesses deletePendingTransaction_def hasPendingTransaction_def
      ex_vault_fields)

lemma ex_sendTransaction_fail:
  "pending_file w = Some p \<Longrightarrow>
   sendTransaction (ex_env (Inl e) tag) cfg sigs w =
     (Inl e, \<lparr> pending_file = Some p, submissions = submissions w @ [map ex_encode sigs] \<rparr>)"
  by (simp add: sendTransaction_def ex_createVault loadPendingTransaction_def
      ex_encode_witnesses ex_vault_fields)

lemma ex_confirm_and_send_ok:
  "pending_file w = Some p \<Longrightarrow>
   confirm_and_send (ex_env (Inr ex_response) tag) ex_send_options True (ex_pending r ss) sigs w =
     (Sent \<lparr> transactionId = ''0xid'', status = ''success'' \<rparr>,
      \<lparr> pending_file = None, submissions = submissions w @ [map ex_encode sigs] \<rparr>)"
  by (simp add: confirm_and_send_def ex_pending_def ex_send_options_def ex_loadWallet
      ex_loadNetwork ex_sendTransaction_ok)

lemma ex_confirm_and_send_fail:
  "pending_file w = Some p \<Longrightarrow>
   confirm_and_send (ex_env (Inl e) tag) ex_send_options True (ex_pending r ss) sigs w =
     (SendFailed e, \<lparr> pending_file = Some p, submissions = submissions w @ [map ex_encode sigs] \<rparr>)"
  by (simp add: confirm_and_send_def ex_pending_def ex_send_options_def ex_loadWallet
      ex_loadNetwork ex_sendTransaction_fail)

lemma ex_sendTx_ready:
  "pending_file w = Some (ex_pending r ss) \<Longrightarrow> \<not> int (uniqueCount ss) < r \<Longrightarrow>
   sendTx env ex_send_options True w =
     confirm_and_send env ex_send_options True (ex_pending r ss) ss w"
  by (simp add: sendTx_def hasPendingTransaction_def loadPendingTransaction_def ex_pending_def)

subsection \<open>The store after a send\<close>

lemma sendTransaction_store:
  "sendTransaction env cfg sigs w = (r, w') \<Longrightarrow>
     (case r of Inl e \<Rightarrow> pending_file w' = pending_file w | Inr res \<Rightarrow> pending_file w' = None)"
  by (auto simp: sendTransaction_def deletePendingTransaction_def hasPendingTransaction_def
      Let_def split: sum.splits prod.splits)

lemma confirm_and_send_store:
  "confirm_and_send env options confirm p sigs w = (out, w') \<Longrightarrow>
     (case out of Sent r \<Rightarrow> pending_file w' = None | _ \<Rightarrow> pending_file w' = pending_file w)"
  by (auto simp: confirm_and_send_def split: sum.splits prod.splits if_splits
      dest!: sendTransaction_store)

lemma sendTx_store:
  "sendTx env options confirm w = (out, w') \<Longrightarrow>
     (case out of Sent r \<Rightarrow> pending_file w' = None | _ \<Rightarrow> pending_file w' = pending_file w)"
  by (auto simp: sendTx_def Let_def split: sum.splits prod.splits if_splits
      dest!: confirm_and_send_store)

lemma sendTx_given_store:
  "sendTx_given env options typed confirm w = (out, w') \<Longrightarrow>
     (case out of Sent r \<Rightarrow> pending_file w' = None | _ \<Rightarrow> pending_file w' = pending_file w)"
  by (auto simp: sendTx_given_def Let_def split: sum.splits prod.splits if_splits
      dest!: confirm_and_send_store)

lemma sign_store:
  "sign env options typed_pk sendNow w = (out, w') \<Longrightarrow>
     (case out of
        ThresholdSent r \<Rightarrow> pending_file w' = None
      | NeedMore k \<Rightarrow> True
      | _ \<Rightarrow> pending_file w' = pending_file w)"
  by (auto simp: sign_def Let_def split: sum.splits prod.splits if_splits
      dest!: sendTransaction_store)

text \<open>
  C1. A send changes the pending file only after the submission has succeeded:
  \<^verbatim>\<open>sendTransaction\<close> that throws at any point (building the vault, loading the pending
  transaction, rebuilding the transaction, encoding, \<^verbatim>\<open>vault.send\<close>,
  \<^verbatim>\<open>waitForResult\<close>) leaves the pending file as it was, with every signature in it,
  and one that returns has deleted it. The same holds for the \<^verbatim>\<open>send-tx\<close> command,
  in both versions (every outcome but \<open>Sent\<close> keeps the file), and for the send that
  \<^verbatim>\<open>sign\<close> offers at the threshold.
\<close>

theorem send_deletes_only_after_success:
  "(case sendTransaction env cfg sigs w of
      (Inl e, w') \<Rightarrow> pending_file w' = pending_file w
    | (Inr r, w') \<Rightarrow> pending_file w' = None) \<and>
   (case sendTx env_b options confirm w of
      (Sent r, w') \<Rightarrow> pending_file w' = None
    | (out, w') \<Rightarrow> pending_file w' = pending_file w) \<and>
   (case sign env_c sopts typed_pk sendNow w of
      (ThresholdSent r, w') \<Rightarrow> pending_file w' = None
    | (ThresholdSendFailed e s, w') \<Rightarrow> pending_file w' = pending_file w
    | (ThresholdNotSent s, w') \<Rightarrow> pending_file w' = pending_file w
    | (out, w') \<Rightarrow> True) \<and>
   (case sendTx_given env_d options typed confirm w of
      (Sent r, w') \<Rightarrow> pending_file w' = None
    | (out, w') \<Rightarrow> pending_file w' = pending_file w)"
proof (intro conjI)
  obtain r w' where a: "sendTransaction env cfg sigs w = (r, w')"
    by (cases "sendTransaction env cfg sigs w")
  from sendTransaction_store [OF a]
  show "case sendTransaction env cfg sigs w of
          (Inl e, w') \<Rightarrow> pending_file w' = pending_file w
        | (Inr r, w') \<Rightarrow> pending_file w' = None"
    by (simp add: a split: sum.splits)
next
  obtain out w' where b: "sendTx env_b options confirm w = (out, w')"
    by (cases "sendTx env_b options confirm w")
  from sendTx_store [OF b]
  show "case sendTx env_b options confirm w of
          (Sent r, w') \<Rightarrow> pending_file w' = None
        | (out, w') \<Rightarrow> pending_file w' = pending_file w"
    by (simp add: b split: send_outcome.splits)
next
  obtain out w' where c: "sign env_c sopts typed_pk sendNow w = (out, w')"
    by (cases "sign env_c sopts typed_pk sendNow w")
  from sign_store [OF c]
  show "case sign env_c sopts typed_pk sendNow w of
          (ThresholdSent r, w') \<Rightarrow> pending_file w' = None
        | (ThresholdSendFailed e s, w') \<Rightarrow> pending_file w' = pending_file w
        | (ThresholdNotSent s, w') \<Rightarrow> pending_file w' = pending_file w
        | (out, w') \<Rightarrow> True"
    by (simp add: c split: sign_outcome.splits)
next
  obtain out w' where d: "sendTx_given env_d options typed confirm w = (out, w')"
    by (cases "sendTx_given env_d options typed confirm w")
  from sendTx_given_store [OF d]
  show "case sendTx_given env_d options typed confirm w of
          (Sent r, w') \<Rightarrow> pending_file w' = None
        | (out, w') \<Rightarrow> pending_file w' = pending_file w"
    by (simp add: d split: send_outcome.splits)
qed

text \<open>
  The witness: with one signature of one required, a send that the network refuses
  keeps the pending transaction, and the same send repeated against a network that
  accepts it succeeds and deletes the file.
\<close>

theorem send_deletes_only_after_success_witness:
  "sendTx (ex_env (Inl (External ''network down'')) ''0xsig_'') ex_send_options True
      (ex_world 1 [SigObj sig_k1]) =
     (SendFailed (External ''network down''),
      \<lparr> pending_file = Some (ex_pending 1 [SigObj sig_k1]),
        submissions = [[''0xaddr_k1:0xsig_k1'']] \<rparr>) \<and>
   sendTx (ex_env (Inr ex_response) ''0xsig_'') ex_send_options True
      \<lparr> pending_file = Some (ex_pending 1 [SigObj sig_k1]),
        submissions = [[''0xaddr_k1:0xsig_k1'']] \<rparr> =
     (Sent \<lparr> transactionId = ''0xid'', status = ''success'' \<rparr>,
      \<lparr> pending_file = None,
        submissions = [[''0xaddr_k1:0xsig_k1''], [''0xaddr_k1:0xsig_k1'']] \<rparr>)"
  using send_deletes_only_after_success
    [where w = "ex_world 1 [SigObj sig_k1]" and options = ex_send_options and confirm = True
       and env_b = "ex_env (Inl (External ''network down'')) ''0xsig_''"]
  by (simp add: ex_sendTx_ready ex_confirm_and_send_ok ex_confirm_and_send_fail uniqueCount_def
      ex_world_def ex_encode_def sig_k1_def)

subsection \<open>Deleting the pending transaction\<close>

text \<open>
  C8. \<^verbatim>\<open>deletePendingTransaction\<close> on an empty store changes nothing and raises
  nothing (it has no error result); on any store, \<^verbatim>\<open>hasPendingTransaction\<close> is false
  right after it.
\<close>

theorem delete_is_noop_when_empty_and_removes:
  "(\<not> hasPendingTransaction w \<longrightarrow> deletePendingTransaction w = w) \<and>
   \<not> hasPendingTransaction (deletePendingTransaction w)"
  by (simp add: deletePendingTransaction_def hasPendingTransaction_def)

theorem delete_is_noop_when_empty_and_removes_witness:
  "\<not> hasPendingTransaction empty_world \<and>
   deletePendingTransaction empty_world = empty_world \<and>
   hasPendingTransaction (ex_world 2 [SigObj sig_k1]) \<and>
   \<not> hasPendingTransaction (deletePendingTransaction (ex_world 2 [SigObj sig_k1]))"
  using delete_is_noop_when_empty_and_removes [of empty_world]
    delete_is_noop_when_empty_and_removes [of "ex_world 2 [SigObj sig_k1]"]
  by (simp add: hasPendingTransaction_def empty_world_def ex_world_def)

subsection \<open>What send-tx submits\<close>

lemma encode_witnesses_all2:
  "encode_witnesses v sigs = Inr ws \<Longrightarrow>
   list_all2 (\<lambda>s e. encodeSignature v (signer_of s) (signature_of s) = Inr e) sigs ws"
  by (induction sigs arbitrary: ws) (auto split: sum.splits)

lemma sendTransaction_submissions:
  "sendTransaction env cfg sigs w = (r, w') \<Longrightarrow>
   (submissions w' = submissions w \<and> isl r) \<or>
   (\<exists>v ws. createVaultInstance env cfg = Inr v \<and> encode_witnesses v sigs = Inr ws \<and>
      submissions w' = submissions w @ [ws])"
  by (auto simp: sendTransaction_def deletePendingTransaction_def hasPendingTransaction_def
      Let_def split: sum.splits prod.splits if_splits)

lemma sendTransaction_submits:
  assumes "pending_file w = Some p"
    and "createVaultInstance env cfg = Inr v"
    and "vault_transaction v (or_else (assetId (transaction p)) (ETH (assets (network cfg))))
           (amount (transaction p)) (to (transaction p)) = Inr (t, h)"
    and "encode_witnesses v sigs = Inr ws"
  shows "submissions (snd (sendTransaction env cfg sigs w)) = submissions w @ [ws] \<and>
         fst (sendTransaction env cfg sigs w) =
           (case send v (t\<lparr> witnesses := ws \<rparr>) of
              Inl e \<Rightarrow> Inl e
            | Inr response \<Rightarrow>
                (case waitForResult response of
                   Inl e \<Rightarrow> Inl e
                 | Inr st \<Rightarrow> Inr \<lparr> transactionId = response_id response,
                                  status = or_else st ''success'' \<rparr>))"
  using assms
  by (auto simp: sendTransaction_def loadPendingTransaction_def deletePendingTransaction_def
      hasPendingTransaction_def Let_def split: sum.splits)

lemma sendTx_ready_calls:
  assumes "pending_file w = Some p"
    and "\<not> int (uniqueCount (signatures p)) < requiredSignatures p"
    and "loadWalletConfig env (walletName p) = Inr walletConfig"
    and "loadNetworkConfig env (or_else (opt_send_network options) (networkName p)) =
           Inr networkConfig"
  shows "sendTx env options True w =
           (case sendTransaction env (joinVaultConfig walletConfig networkConfig)
                   (signatures p) w of
              (Inl e, w1) \<Rightarrow> (SendFailed e, w1)
            | (Inr r, w1) \<Rightarrow> (Sent r, w1))"
  using assms
  by (simp add: sendTx_def hasPendingTransaction_def loadPendingTransaction_def
      confirm_and_send_def)

lemma sendTx_submission_is_persisted:
  assumes "pending_file w = Some p" and "sendTx env options confirm w = (out, w')"
  shows "(submissions w' = submissions w \<and> (\<forall>r. out \<noteq> Sent r)) \<or>
         (\<exists>walletConfig networkConfig v ws.
             loadWalletConfig env (walletName p) = Inr walletConfig \<and>
             loadNetworkConfig env (or_else (opt_send_network options) (networkName p)) =
               Inr networkConfig \<and>
             createVaultInstance env (joinVaultConfig walletConfig networkConfig) = Inr v \<and>
             encode_witnesses v (signatures p) = Inr ws \<and>
             submissions w' = submissions w @ [ws])"
  using assms
  by (auto simp: sendTx_def hasPendingTransaction_def loadPendingTransaction_def Let_def
      confirm_and_send_def
      split: if_splits sum.splits prod.splits dest!: sendTransaction_submissions)

lemma snd_send_outcome:
  "snd (case x of (Inl e, w1) \<Rightarrow> (SendFailed e, w1) | (Inr r, w1) \<Rightarrow> (Sent r, w1)) = snd x"
  by (cases x) (auto split: sum.splits)

lemma sendTx_options_irrelevant:
  "sendTx env (options\<lparr> opt_signer := s, opt_signature := g \<rparr>) confirm w =
   sendTx env options confirm w"
proof -
  have "confirm_and_send env (options\<lparr> opt_signer := s, opt_signature := g \<rparr>) confirm p sigs w =
        confirm_and_send env options confirm p sigs w" for p sigs
    by (simp add: confirm_and_send_def cong: sum.case_cong)
  then show ?thesis
    by (simp add: sendTx_def Let_def split: sum.splits)
qed

text \<open>
  C9. \<^verbatim>\<open>index.ts\<close> declares \<^verbatim>\<open>--signer\<close> and \<^verbatim>\<open>--signature\<close> for
  \<^verbatim>\<open>send-tx\<close>, and \<^verbatim>\<open>sendTx\<close> (of \<^verbatim>\<open>src/unnamed/part_001\<close>) does not read
  them: whatever they hold, the outcome and the state are the same. What it hands to the
  submission is the persisted list and nothing else. First, a submission, when there is
  one (there is one whenever the outcome is \<open>Sent\<close>), is the list of witnesses that the
  vault built from the loaded wallet and network configuration encodes from the persisted
  signatures, one for each, in the order of the file. Second, when the count passes, the
  send is confirmed and the two configurations load, the command is the call of
  \<^verbatim>\<open>sendTransaction\<close> on the persisted signatures, and when the vault is built, the
  transaction rebuilt and the signatures encoded, those witnesses are submitted. A
  signature given only on the command line is in no submission.
\<close>

theorem sendTx_submits_persisted_only:
  assumes "pending_file w = Some p" and "sendTx env options confirm w = (out, w')"
  shows "sendTx env (options\<lparr> opt_signer := s, opt_signature := g \<rparr>) confirm w = (out, w') \<and>
         ((submissions w' = submissions w \<and> (\<forall>r. out \<noteq> Sent r)) \<or>
          (\<exists>wc nc v ws.
              loadWalletConfig env (walletName p) = Inr wc \<and>
              loadNetworkConfig env (or_else (opt_send_network options) (networkName p)) = Inr nc \<and>
              createVaultInstance env (joinVaultConfig wc nc) = Inr v \<and>
              encode_witnesses v (signatures p) = Inr ws \<and>
              list_all2 (\<lambda>s e. encodeSignature v (signer_of s) (signature_of s) = Inr e)
                (signatures p) ws \<and>
              submissions w' = submissions w @ [ws])) \<and>
         (confirm \<and> \<not> int (uniqueCount (signatures p)) < requiredSignatures p \<and>
          loadWalletConfig env (walletName p) = Inr walletConfig \<and>
          loadNetworkConfig env (or_else (opt_send_network options) (networkName p)) =
            Inr networkConfig \<longrightarrow>
            (out, w') =
              (case sendTransaction env (joinVaultConfig walletConfig networkConfig)
                      (signatures p) w of
                 (Inl e, w1) \<Rightarrow> (SendFailed e, w1)
               | (Inr r, w1) \<Rightarrow> (Sent r, w1)) \<and>
            (createVaultInstance env (joinVaultConfig walletConfig networkConfig) = Inr vlt \<and>
             vault_transaction vlt
               (or_else (assetId (transaction p)) (ETH (assets networkConfig)))
               (amount (transaction p)) (to (transaction p)) = Inr (t, h) \<and>
             encode_witnesses vlt (signatures p) = Inr enc \<longrightarrow>
               submissions w' = submissions w @ [enc]))"
proof (intro conjI impI)
  show "sendTx env (options\<lparr> opt_signer := s, opt_signature := g \<rparr>) confirm w = (out, w')"
    using assms(2) by (simp add: sendTx_options_irrelevant)
next
  from sendTx_submission_is_persisted [OF assms]
  show "(submissions w' = submissions w \<and> (\<forall>r. out \<noteq> Sent r)) \<or>
        (\<exists>wc nc v ws.
            loadWalletConfig env (walletName p) = Inr wc \<and>
            loadNetworkConfig env (or_else (opt_send_network options) (networkName p)) = Inr nc \<and>
            createVaultInstance env (joinVaultConfig wc nc) = Inr v \<and>
            encode_witnesses v (signatures p) = Inr ws \<and>
            list_all2 (\<lambda>s e. encodeSignature v (signer_of s) (signature_of s) = Inr e)
              (signatures p) ws \<and>
            submissions w' = submissions w @ [ws])"
  proof (elim disjE exE conjE)
    fix wc nc v ws
    assume 1: "loadWalletConfig env (walletName p) = Inr wc"
      and 2: "loadNetworkConfig env (or_else (opt_send_network options) (networkName p)) = Inr nc"
      and 3: "createVaultInstance env (joinVaultConfig wc nc) = Inr v"
      and 4: "encode_witnesses v (signatures p) = Inr ws"
      and 5: "submissions w' = submissions w @ [ws]"
    from 1 2 3 4 5 encode_witnesses_all2 [OF 4] show ?thesis
      by (intro disjI2 exI [of _ wc] exI [of _ nc] exI [of _ v] exI [of _ ws]) simp
  qed simp
next
  assume r: "confirm \<and> \<not> int (uniqueCount (signatures p)) < requiredSignatures p \<and>
      loadWalletConfig env (walletName p) = Inr walletConfig \<and>
      loadNetworkConfig env (or_else (opt_send_network options) (networkName p)) =
        Inr networkConfig"
  let ?cfg = "joinVaultConfig walletConfig networkConfig"
  from r have c: "confirm = True" by simp
  from r have "sendTx env options True w =
      (case sendTransaction env ?cfg (signatures p) w of
         (Inl e, w1) \<Rightarrow> (SendFailed e, w1)
       | (Inr r, w1) \<Rightarrow> (Sent r, w1))"
    by (intro sendTx_ready_calls [OF assms(1)]) blast+
  with assms(2) c
  show call: "(out, w') =
      (case sendTransaction env ?cfg (signatures p) w of
         (Inl e, w1) \<Rightarrow> (SendFailed e, w1)
       | (Inr r, w1) \<Rightarrow> (Sent r, w1))"
    by (simp only:)
  assume e: "createVaultInstance env ?cfg = Inr vlt \<and>
      vault_transaction vlt
        (or_else (assetId (transaction p)) (ETH (assets networkConfig)))
        (amount (transaction p)) (to (transaction p)) = Inr (t, h) \<and>
      encode_witnesses vlt (signatures p) = Inr enc"
  have n: "network ?cfg = networkConfig"
    by (simp add: joinVaultConfig_def)
  have e1: "createVaultInstance env ?cfg = Inr vlt"
    using e by blast
  have e2: "vault_transaction vlt
        (or_else (assetId (transaction p)) (ETH (assets (network ?cfg))))
        (amount (transaction p)) (to (transaction p)) = Inr (t, h)"
    using e unfolding n by blast
  have e3: "encode_witnesses vlt (signatures p) = Inr enc"
    using e by blast
  have "submissions (snd (sendTransaction env ?cfg (signatures p) w)) = submissions w @ [enc]"
    using sendTransaction_submits [OF assms(1) e1 e2 e3] by (rule conjunct1)
  moreover have "w' = snd (sendTransaction env ?cfg (signatures p) w)"
    using arg_cong [OF call, of snd] by (simp only: snd_conv snd_send_outcome)
  ultimately show "submissions w' = submissions w @ [enc]"
    by (simp only:)
qed


text \<open>
  The witness: the file holds the signature of \<open>k1\<close>, the command line names the
  signature of \<open>k2\<close>; what is submitted is the witness of \<open>k1\<close> alone.
\<close>

theorem sendTx_submits_persisted_only_witness:
  "sendTx (ex_env (Inr ex_response) ''0xsig_'')
      (ex_send_options\<lparr> opt_signer := Some ''0xaddr_k2'', opt_signature := Some ''0xsig_k2'' \<rparr>)
      True (ex_world 1 [SigObj sig_k1]) =
     (Sent \<lparr> transactionId = ''0xid'', status = ''success'' \<rparr>,
      \<lparr> pending_file = None, submissions = [[''0xaddr_k1:0xsig_k1'']] \<rparr>)"
proof -
  have a: "pending_file (ex_world 1 [SigObj sig_k1]) = Some (ex_pending 1 [SigObj sig_k1])"
    by (simp add: ex_world_def)
  have "sendTx (ex_env (Inr ex_response) ''0xsig_'') ex_send_options True
          (ex_world 1 [SigObj sig_k1]) =
        confirm_and_send (ex_env (Inr ex_response) ''0xsig_'') ex_send_options True
          (ex_pending 1 [SigObj sig_k1]) [SigObj sig_k1] (ex_world 1 [SigObj sig_k1])"
    by (rule ex_sendTx_ready [OF a]) (simp add: uniqueCount_def)
  then have b: "sendTx (ex_env (Inr ex_response) ''0xsig_'') ex_send_options True
          (ex_world 1 [SigObj sig_k1]) =
        (Sent \<lparr> transactionId = ''0xid'', status = ''success'' \<rparr>,
         \<lparr> pending_file = None, submissions = [[''0xaddr_k1:0xsig_k1'']] \<rparr>)"
    by (simp only: ex_confirm_and_send_ok [OF a])
       (simp add: ex_world_def ex_encode_def sig_k1_def)
  from sendTx_submits_persisted_only [OF a b] show ?thesis
    by (rule conjunct1)
qed

text \<open>
  The other version of the command, \<^verbatim>\<open>src/commands/send-tx.ts\<close>, does the opposite
  on the same input: it submits the signature of the command line and not the persisted
  one. C9 is about the version above and does not hold of this one.
\<close>

lemma sendTx_given_submits_cli_signature:
  "sendTx_given (ex_env (Inr ex_response) ''0xsig_'')
      (ex_send_options\<lparr> opt_signer := Some ''0xaddr_k2'', opt_signature := Some ''0xsig_k2'' \<rparr>)
      typed True (ex_world 1 [SigObj sig_k1]) =
     (Sent \<lparr> transactionId = ''0xid'', status = ''success'' \<rparr>,
      \<lparr> pending_file = None, submissions = [[''0xaddr_k2:0xsig_k2'']] \<rparr>)"
proof -
  let ?env = "ex_env (Inr ex_response) ''0xsig_''"
  let ?options =
    "ex_send_options\<lparr> opt_signer := Some ''0xaddr_k2'', opt_signature := Some ''0xsig_k2'' \<rparr>"
  have a: "sendTx_given ?env ?options typed True (ex_world 1 [SigObj sig_k1]) =
           confirm_and_send ?env ?options True (ex_pending 1 [SigObj sig_k1]) [SigObj sig_k2]
             (ex_world 1 [SigObj sig_k1])"
    by (simp add: sendTx_given_def hasPendingTransaction_def loadPendingTransaction_def
        ex_world_def ex_pending_fields sig_k2_def)
  have b: "confirm_and_send ?env ?options True q sigs w =
           confirm_and_send ?env ex_send_options True q sigs w" for q sigs w
    by (simp add: confirm_and_send_def cong: sum.case_cong)
  have c: "pending_file (ex_world 1 [SigObj sig_k1]) = Some (ex_pending 1 [SigObj sig_k1])"
    by (simp add: ex_world_def)
  show ?thesis
    by (simp add: a b ex_confirm_and_send_ok [OF c])
       (simp add: ex_world_def ex_encode_def sig_k2_def)
qed

subsection \<open>Creating while a transaction is pending\<close>

lemma createTransaction_store:
  "createTransaction env cfg input w = (r, w') \<Longrightarrow>
   (case r of
      Inl e \<Rightarrow> w' = w
    | Inr res \<Rightarrow> \<exists>p. pending_file w' = Some p \<and> signatures p = [])"
  by (auto simp: createTransaction_def savePendingTransaction_def Let_def
      split: sum.splits prod.splits)

lemma txInput_of_not_Created: "txInput_of env options = Inl out \<Longrightarrow> out \<noteq> Created r"
  by (auto simp: txInput_of_def split: if_splits option.splits json_file.splits)

lemma createTx_replace_store:
  "createTx env options True w = (out, w') \<Longrightarrow>
   (case out of
      Created r \<Rightarrow> \<exists>p. pending_file w' = Some p \<and> signatures p = []
    | _ \<Rightarrow> pending_file w' = None)"
  by (auto simp: createTx_def Let_def deletePendingTransaction_def hasPendingTransaction_def
      split: sum.splits prod.splits if_splits create_outcome.splits
      dest!: createTransaction_store dest: txInput_of_not_Created)

lemma createTx_replace_forgets:
  "createTx env options True w = createTx env options True (w\<lparr> pending_file := None \<rparr>)"
proof (cases "pending_file w")
  case None
  then have "w\<lparr> pending_file := None \<rparr> = w"
    by simp
  then show ?thesis
    by simp
next
  case (Some p)
  then show ?thesis
    by (simp add: createTx_def deletePendingTransaction_def hasPendingTransaction_def)
qed

lemma ex_createTx:
  "pending_file w = None \<Longrightarrow>
   createTx (ex_env sent tag) ex_create_options replace w =
     (Created \<lparr> result_hashTxId = ''0xhash'', vaultAddress = ''0xvault'', signersRequired = 2 \<rparr>,
      w\<lparr> pending_file := Some (ex_pending 2 []) \<rparr>)"
  by (simp add: createTx_def hasPendingTransaction_def ex_create_options_def txInput_of_def
      ex_loadWallet ex_loadNetwork createTransaction_def ex_createVault ex_vault_fields
      joinVaultConfig_def savePendingTransaction_def ex_pending_def ex_input_def ex_tx_def)
     (simp add: ex_vault_def ex_env_def)

text \<open>
  C7. With a pending transaction in the store, \<^verbatim>\<open>create-tx\<close> answered \<^verbatim>\<open>no\<close> at
  \<^verbatim>\<open>Replace the pending transaction?\<close> ends with \<open>KeptExisting\<close> (the conflict) and
  the state unchanged. Answered \<^verbatim>\<open>yes\<close>, it deletes the old transaction first: it
  behaves exactly as on an empty store, so nothing of the old transaction reaches the new
  one; the store then holds a transaction only when the outcome is \<open>Created\<close>, and that
  transaction has no signatures.
\<close>

theorem createTx_conflict_or_replace:
  assumes "hasPendingTransaction w"
  shows "createTx env options False w = (KeptExisting, w) \<and>
         createTx env options True w = createTx env options True (w\<lparr> pending_file := None \<rparr>) \<and>
         (case createTx env options True w of
            (Created r, w') \<Rightarrow> (\<exists>p. pending_file w' = Some p \<and> signatures p = [])
          | (out, w') \<Rightarrow> pending_file w' = None)"
proof (intro conjI)
  show "createTx env options False w = (KeptExisting, w)"
    using assms by (simp add: createTx_def)
  show "createTx env options True w = createTx env options True (w\<lparr> pending_file := None \<rparr>)"
    by (rule createTx_replace_forgets)
  obtain out w' where c: "createTx env options True w = (out, w')"
    by (cases "createTx env options True w")
  from createTx_replace_store [OF c]
  show "case createTx env options True w of
          (Created r, w') \<Rightarrow> (\<exists>p. pending_file w' = Some p \<and> signatures p = [])
        | (out, w') \<Rightarrow> pending_file w' = None"
    by (simp add: c split: create_outcome.splits)
qed

text \<open>
  The witness: a pending transaction with one signature; refused, it stays; replaced,
  the new transaction has none.
\<close>

theorem createTx_conflict_or_replace_witness:
  "hasPendingTransaction (ex_world 2 [SigObj sig_k1]) \<and>
   createTx (ex_env (Inr ex_response) ''0xsig_'') ex_create_options False
      (ex_world 2 [SigObj sig_k1]) = (KeptExisting, ex_world 2 [SigObj sig_k1]) \<and>
   createTx (ex_env (Inr ex_response) ''0xsig_'') ex_create_options True
      (ex_world 2 [SigObj sig_k1]) =
     (Created \<lparr> result_hashTxId = ''0xhash'', vaultAddress = ''0xvault'', signersRequired = 2 \<rparr>,
      ex_world 2 [])"
proof -
  have h: "hasPendingTransaction (ex_world 2 [SigObj sig_k1])"
    by (simp add: hasPendingTransaction_def ex_world_def)
  have e: "pending_file (ex_world 2 [SigObj sig_k1]\<lparr> pending_file := None \<rparr>) = None"
    by simp
  show ?thesis
    using createTx_conflict_or_replace
      [OF h, where env = "ex_env (Inr ex_response) ''0xsig_''" and options = ex_create_options]
    by (simp add: h ex_createTx [OF e]) (simp add: ex_world_def)
qed

subsection \<open>Validating a wallet file\<close>

text \<open>
  C10, as the code has it. \<^verbatim>\<open>loadWalletConfig\<close> accepts a parsed wallet file exactly
  when it has a \<^verbatim>\<open>config\<close> object with a non-empty \<^verbatim>\<open>SIGNERS\<close> array, a
  \<^verbatim>\<open>SIGNATURES_COUNT\<close> of at least 1 and at most the number of signers other than the
  all-zero address, and a \<^verbatim>\<open>version\<close> that is present and not the empty string.
  So it throws whenever \<^verbatim>\<open>SIGNATURES_COUNT\<close> exceeds the number of signers left after
  the zero addresses are removed, and a zero address counts for \<^verbatim>\<open>SIGNERS\<close> being
  non-empty but not for the bound.
\<close>

theorem loadWalletConfig_accepts_iff:
  assumes "wallet_files fs nm = Some (Json f)"
  shows "(\<exists>c. loadWalletConfig fs nm = Inr c) \<longleftrightarrow>
     (\<exists>pc n ss. file_config f = Some pc \<and> file_SIGNATURES_COUNT pc = Some n \<and>
        file_SIGNERS pc = Some ss \<and> ss \<noteq> [] \<and> 1 \<le> n \<and> truthy (file_version f) \<and>
        n \<le> int (length (filter (\<lambda>s. s \<noteq> zero_address) ss)))"
  using assms
  by (auto simp: loadWalletConfig_def validateWalletConfig_def Let_def
      split: option.splits if_splits)

text \<open>
  The witness: two signers and a count of 2 are accepted; with one of the two the zero
  address the count of 2 is refused and the count of 1 accepted; a lone zero address is a
  non-empty \<^verbatim>\<open>SIGNERS\<close> and is refused for the count.
\<close>

theorem loadWalletConfig_accepts_iff_witness:
  "(\<exists>c. loadWalletConfig (ex_files (ex_wallet 2 [''0xaddr_k1'', ''0xaddr_k2''] (Some ''0xv1'')))
            ''w'' = Inr c) \<and>
   loadWalletConfig (ex_files (ex_wallet 2 [zero_address, ''0xaddr_k1''] (Some ''0xv1''))) ''w'' =
     Inl SignaturesCountAboveSigners \<and>
   (\<exists>c. loadWalletConfig (ex_files (ex_wallet 1 [zero_address, ''0xaddr_k1''] (Some ''0xv1'')))
            ''w'' = Inr c) \<and>
   loadWalletConfig (ex_files (ex_wallet 1 [zero_address] (Some ''0xv1''))) ''w'' =
     Inl SignaturesCountAboveSigners"
proof -
  have a: "wallet_files (ex_files f) ''w'' = Some (Json f)" for f
    by (simp add: ex_files_def)
  show ?thesis
    using loadWalletConfig_accepts_iff
      [OF a, of "ex_wallet 2 [''0xaddr_k1'', ''0xaddr_k2''] (Some ''0xv1'')"]
    by (simp add: loadWalletConfig_def a validateWalletConfig_def ex_wallet_def
        not_zero_address)
qed

text \<open>
  The counterexample to C10 as stated: a wallet file whose \<^verbatim>\<open>version\<close> field is
  present and is the empty string, with one signer and a count of 1. The count is within
  the bound, \<^verbatim>\<open>SIGNERS\<close> is non-empty and the field is there, and the file is refused.
\<close>

theorem loadWalletConfig_empty_version_counterexample:
  "file_version (ex_wallet 1 [''0xaddr_k1''] (Some [])) \<noteq> None \<and>
   (1::int) \<le> int (length (filter (\<lambda>s. s \<noteq> zero_address) [''0xaddr_k1''])) \<and>
   loadWalletConfig (ex_files (ex_wallet 1 [''0xaddr_k1''] (Some []))) ''w'' = Inl MissingVersion"
  by (simp add: loadWalletConfig_def ex_files_def validateWalletConfig_def ex_wallet_def
      not_zero_address)

subsection \<open>The stringified signature determines the signature\<close>

lemma of_char_hex_digit:
  "(of_char (hex_digit n) :: nat) = (if n mod 16 < 10 then 48 + n mod 16 else 87 + n mod 16)"
  by (simp add: hex_digit_def Let_def)

lemma hex_digit_inj: "i < 16 \<Longrightarrow> j < 16 \<Longrightarrow> hex_digit i = hex_digit j \<Longrightarrow> i = j"
proof -
  assume a: "i < 16" "j < 16" "hex_digit i = hex_digit j"
  from a(3) have "(of_char (hex_digit i) :: nat) = of_char (hex_digit j)" by simp
  with a(1,2) show ?thesis
    by (simp add: of_char_hex_digit split: if_splits)
qed

lemma short_escape_inj: "short_escape c = Some x \<Longrightarrow> short_escape d = Some x \<Longrightarrow> c = d"
  by (auto simp: short_escape_def split: if_splits)

lemma short_escape_not_u: "short_escape c = Some x \<Longrightarrow> x \<noteq> CHR ''u''"
  by (auto simp: short_escape_def split: if_splits)

lemma short_escape_None: "short_escape c = None \<Longrightarrow> c \<noteq> CHR 0x5C \<and> c \<noteq> CHR 0x22"
  by (auto simp: short_escape_def split: if_splits)

lemma control_inj:
  assumes "(of_char c :: nat) < 32" "(of_char d :: nat) < 32"
    "hex_digit (of_char c div 16) = hex_digit (of_char d div 16)"
    "hex_digit (of_char c mod 16) = hex_digit (of_char d mod 16)"
  shows "c = d"
proof -
  have "(of_char c :: nat) div 16 = of_char d div 16"
    using assms(1,2,3) by (intro hex_digit_inj) auto
  moreover have "(of_char c :: nat) mod 16 = of_char d mod 16"
    using assms(4) by (intro hex_digit_inj) auto
  ultimately have "(of_char c :: nat) = of_char d"
    by (metis div_mult_mod_eq)
  then show ?thesis by simp
qed


lemma json_escape_cases:
  obtains (short) x where "json_escape c = [CHR 0x5C, x]" "short_escape c = Some x" "x \<noteq> CHR ''u''"
  | (control) "json_escape c = [CHR 0x5C, CHR ''u'', CHR ''0'', CHR ''0'',
                 hex_digit (of_char c div 16), hex_digit (of_char c mod 16)]"
              "(of_char c :: nat) < 32"
  | (plain) "json_escape c = [c]" "c \<noteq> CHR 0x5C" "c \<noteq> CHR 0x22"
proof (cases "short_escape c")
  case (Some x)
  then show ?thesis
    using short [of x] short_escape_not_u [OF Some] by (simp add: json_escape_def)
next
  case None
  then show ?thesis
    using control plain short_escape_None [OF None]
    by (cases "(of_char c :: nat) < 32") (simp_all add: json_escape_def)
qed

lemma json_escape_prefix_code:
  assumes "json_escape c @ r = json_escape d @ r'"
  shows "c = d \<and> r = r'"
proof (cases c rule: json_escape_cases)
  case c: (short x)
  show ?thesis
  proof (cases d rule: json_escape_cases)
    case (short y)
    with c assms have "x = y" "r = r'" by simp_all
    with short_escape_inj [of c x d] c short show ?thesis by simp
  next
    case control
    with c assms show ?thesis by simp
  next
    case plain
    with c assms show ?thesis by simp
  qed
next
  case c: control
  show ?thesis
  proof (cases d rule: json_escape_cases)
    case (short y)
    with c assms show ?thesis by simp
  next
    case control
    with c assms have "hex_digit (of_char c div 16) = hex_digit (of_char d div 16)"
      "hex_digit (of_char c mod 16) = hex_digit (of_char d mod 16)" "r = r'"
      by simp_all
    with control_inj [of c d] c control show ?thesis by simp
  next
    case plain
    with c assms show ?thesis by simp
  qed
next
  case c: plain
  show ?thesis
  proof (cases d rule: json_escape_cases)
    case (short y)
    with c assms show ?thesis by simp
  next
    case control
    with c assms show ?thesis by simp
  next
    case plain
    with c assms show ?thesis by simp
  qed
qed

lemma json_escape_not_quote: "json_escape c @ r \<noteq> CHR 0x22 # r'"
  by (cases c rule: json_escape_cases) simp_all


lemma escaped_inj:
  "concat (map json_escape s) @ CHR 0x22 # r = concat (map json_escape t) @ CHR 0x22 # r' \<Longrightarrow>
   s = t \<and> r = r'"
proof (induction s arbitrary: t)
  case Nil
  show ?case
  proof (cases t)
    case Nil
    with Nil.prems show ?thesis by simp
  next
    case (Cons d t')
    with Nil.prems have "json_escape d @ (concat (map json_escape t') @ CHR 0x22 # r') = CHR 0x22 # r"
      by simp
    then show ?thesis
      by (rule json_escape_not_quote [THEN notE])
  qed
next
  case (Cons c s)
  show ?case
  proof (cases t)
    case Nil
    with Cons.prems have "json_escape c @ (concat (map json_escape s) @ CHR 0x22 # r) = CHR 0x22 # r'"
      by simp
    then show ?thesis
      by (rule json_escape_not_quote [THEN notE])
  next
    case (Cons d t')
    with Cons.prems have "json_escape c @ (concat (map json_escape s) @ CHR 0x22 # r) =
        json_escape d @ (concat (map json_escape t') @ CHR 0x22 # r')"
      by simp
    from json_escape_prefix_code [OF this] Cons.IH [of t'] Cons show ?thesis
      by simp
  qed
qed

lemma QuoteJSONString_inj:
  "QuoteJSONString s @ r = QuoteJSONString t @ r' \<Longrightarrow> s = t \<and> r = r'"
proof -
  assume "QuoteJSONString s @ r = QuoteJSONString t @ r'"
  then have "concat (map json_escape s) @ CHR 0x22 # r = concat (map json_escape t) @ CHR 0x22 # r'"
    by (simp add: QuoteJSONString_def)
  then show ?thesis
    by (rule escaped_inj)
qed


lemma stringify_signature_split:
  "stringify_signature a =
     (''{'' @ QuoteJSONString ''signer'' @ '':'') @ QuoteJSONString (signer a) @
     (('','' @ QuoteJSONString ''signature'' @ '':'') @ QuoteJSONString (signature a) @ ''}'')"
  by (simp add: stringify_signature_def)

lemma stringify_signature_inj:
  "stringify_signature a = stringify_signature b \<longleftrightarrow> a = b"
proof
  assume "stringify_signature a = stringify_signature b"
  then have "QuoteJSONString (signer a) @
               (('','' @ QuoteJSONString ''signature'' @ '':'') @ QuoteJSONString (signature a) @ ''}'') =
             QuoteJSONString (signer b) @
               (('','' @ QuoteJSONString ''signature'' @ '':'') @ QuoteJSONString (signature b) @ ''}'')"
    unfolding stringify_signature_split by (rule same_append_eq [THEN iffD1])
  from QuoteJSONString_inj [OF this]
  have 1: "signer a = signer b"
    and 2: "('','' @ QuoteJSONString ''signature'' @ '':'') @ QuoteJSONString (signature a) @ ''}'' =
            ('','' @ QuoteJSONString ''signature'' @ '':'') @ QuoteJSONString (signature b) @ ''}''"
    by blast+
  from 2 have "QuoteJSONString (signature a) @ ''}'' = QuoteJSONString (signature b) @ ''}''"
    by (rule same_append_eq [THEN iffD1])
  from QuoteJSONString_inj [OF this] have "signature a = signature b"
    by blast
  with 1 show "a = b"
    by simp
next
  assume "a = b"
  then show "stringify_signature a = stringify_signature b"
    by simp
qed

subsection \<open>One invocation of sign, and a sequence of them\<close>

lemma sign_cases:
  assumes "pending_file w = Some p" and "sign env options typed_pk sendNow w = (out, w')"
  shows "case presented (env, options, typed_pk, sendNow) (hashTxId p) of
           None \<Rightarrow> w' = w \<and> \<not> threshold_reached out
         | Some s \<Rightarrow>
             if int (length (signatures p)) + 1 \<ge> requiredSignatures p then
               threshold_reached out \<and> (pending_file w' = Some p \<or> pending_file w' = None)
             else
               out = NeedMore (requiredSignatures p - (int (length (signatures p)) + 1)) \<and>
               w' = (if sig_entry s \<in> set (signatures p) then w
                     else w\<lparr> pending_file :=
                            Some (p\<lparr> signatures := signatures p @ [sig_entry s] \<rparr>) \<rparr>)"
  using assms
  by (auto simp: sign_def presented_def hasPendingTransaction_def loadPendingTransaction_def
      savePendingTransaction_def Let_def sig_entry_def
      split: sum.splits prod.splits if_splits dest!: sendTransaction_store)

lemma sign_all_None: "pending_file w = None \<Longrightarrow> sign_all calls w = w"
  by (induction calls arbitrary: w) (auto simp: sign_def hasPendingTransaction_def)

lemma sign_step:
  assumes "pending_file w = Some p"
  shows "pending_file (snd (sign env options typed_pk sendNow w)) = None \<or>
         pending_file (snd (sign env options typed_pk sendNow w)) = Some p \<or>
         (\<exists>s. pending_file (snd (sign env options typed_pk sendNow w)) =
                 Some (p\<lparr> signatures := signatures p @ [sig_entry s] \<rparr>) \<and>
              sig_entry s \<notin> set (signatures p))"
proof -
  obtain out w' where s: "sign env options typed_pk sendNow w = (out, w')"
    by (cases "sign env options typed_pk sendNow w")
  from sign_cases [OF assms s] assms show ?thesis
    by (auto simp: s split: option.splits if_splits)
qed

lemma sign_all_extends:
  assumes "pending_file w = Some p"
  shows "pending_file (sign_all calls w) = None \<or>
         (\<exists>ys. pending_file (sign_all calls w) = Some (p\<lparr> signatures := signatures p @ ys \<rparr>) \<and>
            set ys \<subseteq> range sig_entry \<and>
            (distinct (signatures p) \<longrightarrow> distinct (signatures p @ ys)))"
  using assms
proof (induction calls arbitrary: w p)
  case Nil
  then show ?case
    by (auto intro: exI [of _ "[]"])
next
  case (Cons call calls)
  obtain env options typed_pk sendNow where call: "call = (env, options, typed_pk, sendNow)"
    by (cases call)
  let ?w = "snd (sign env options typed_pk sendNow w)"
  have all: "sign_all (call # calls) w = sign_all calls ?w"
    by (simp add: call)
  from sign_step [OF Cons.prems, of env options typed_pk sendNow]
  consider (gone) "pending_file ?w = None"
    | (same) "pending_file ?w = Some p"
    | (more) s where "pending_file ?w = Some (p\<lparr> signatures := signatures p @ [sig_entry s] \<rparr>)"
        "sig_entry s \<notin> set (signatures p)"
    by auto
  then show ?case
  proof cases
    case gone
    then show ?thesis
      by (simp add: all sign_all_None)
  next
    case same
    from Cons.IH [OF same] show ?thesis
      by (simp add: all)
  next
    case (more s)
    from Cons.IH [OF more(1)]
    show ?thesis
    proof (elim disjE exE conjE)
      assume "pending_file (sign_all calls ?w) = None"
      then show ?thesis by (simp add: all)
    next
      fix ys
      assume a: "pending_file (sign_all calls ?w) =
                   Some (p\<lparr> signatures := signatures p @ [sig_entry s] \<rparr>
                          \<lparr> signatures := signatures (p\<lparr> signatures := signatures p @ [sig_entry s] \<rparr>) @ ys \<rparr>)"
        and b: "set ys \<subseteq> range sig_entry"
        and c: "distinct (signatures (p\<lparr> signatures := signatures p @ [sig_entry s] \<rparr>)) \<longrightarrow>
                distinct (signatures (p\<lparr> signatures := signatures p @ [sig_entry s] \<rparr>) @ ys)"
      have "pending_file (sign_all (call # calls) w) =
              Some (p\<lparr> signatures := signatures p @ (sig_entry s # ys) \<rparr>)"
        using a by (simp add: all)
      moreover have "set (sig_entry s # ys) \<subseteq> range sig_entry"
        using b by auto
      moreover have "distinct (signatures p) \<longrightarrow> distinct (signatures p @ (sig_entry s # ys))"
        using c more(2) by auto
      ultimately show ?thesis
        by blast
    qed
  qed
qed


lemma sig_entry_inj [simp]: "sig_entry a = sig_entry b \<longleftrightarrow> a = b"
  by (simp add: sig_entry_def stringify_signature_inj)

lemma sig_entry_in_map [simp]: "sig_entry s \<in> sig_entry ` A \<longleftrightarrow> s \<in> A"
  by auto

lemma presented_all_Cons:
  "presented_all ((env, options, typed_pk, sendNow) # calls) h =
     (case presented (env, options, typed_pk, sendNow) h of
        None \<Rightarrow> presented_all calls h
      | Some s \<Rightarrow> s # presented_all calls h)"
  by (simp add: presented_all_def split: option.splits)

lemma sign_all_collects:
  assumes "pending_file w = Some p"
    and "signatures p = map sig_entry xs"
    and "distinct xs"
    and "int (card (set xs \<union> set (presented_all calls (hashTxId p)))) < requiredSignatures p"
  shows "(pending_file (sign_all calls w) = None \<and>
          int (card (set xs \<union> set (presented_all calls (hashTxId p)))) + 1 = requiredSignatures p) \<or>
         (\<exists>ys. pending_file (sign_all calls w) = Some (p\<lparr> signatures := map sig_entry ys \<rparr>) \<and>
            distinct ys \<and> set ys = set xs \<union> set (presented_all calls (hashTxId p)))"
  using assms
proof (induction calls arbitrary: w p xs)
  case Nil
  have "p\<lparr> signatures := map sig_entry xs \<rparr> = p"
    using Nil.prems(2) by simp
  with Nil.prems show ?case
    by (auto simp: presented_all_def intro!: exI [of _ xs])
next
  case (Cons call calls)
  obtain env options typed_pk sendNow where call: "call = (env, options, typed_pk, sendNow)"
    by (cases call)
  obtain out w1 where s: "sign env options typed_pk sendNow w = (out, w1)"
    by (cases "sign env options typed_pk sendNow w")
  have all: "sign_all (call # calls) w = sign_all calls w1"
    by (simp add: call s)
  let ?h = "hashTxId p"
  let ?U = "set xs \<union> set (presented_all (call # calls) ?h)"
  let ?U' = "set xs \<union> set (presented_all calls ?h)"
  note step = sign_cases [OF Cons.prems(1) s]
  have len: "length (signatures p) = card (set xs)"
    using Cons.prems(2,3) by (simp add: distinct_card)
  show ?case
  proof (cases "presented (env, options, typed_pk, sendNow) ?h")
    case None
    with step have "w1 = w" by simp
    moreover have "presented_all (call # calls) ?h = presented_all calls ?h"
      using None by (simp add: call presented_all_Cons)
    ultimately show ?thesis
      using Cons.IH [OF Cons.prems(1,2,3)] Cons.prems(4) by (simp add: all)
  next
    case (Some sg)
    have pres: "presented_all (call # calls) ?h = sg # presented_all calls ?h"
      using Some by (simp add: call presented_all_Cons)
    have U: "?U = insert sg ?U'"
      by (simp add: pres)
    have sub: "card (set xs) \<le> card ?U"
      by (intro card_mono) auto
    show ?thesis
    proof (cases "int (length (signatures p)) + 1 \<ge> requiredSignatures p")
      case True
      with len sub Cons.prems(4) have eq: "card (set xs) = card ?U"
        and req: "int (card ?U) + 1 = requiredSignatures p"
        by linarith+
      have "set xs = ?U"
        by (intro card_subset_eq eq) auto
      then have U': "?U' = ?U"
        by (auto simp: pres)
      from step Some True have "pending_file w1 = Some p \<or> pending_file w1 = None"
        by simp
      then show ?thesis
      proof
        assume "pending_file w1 = None"
        then show ?thesis
          using req by (simp add: all sign_all_None)
      next
        assume same: "pending_file w1 = Some p"
        from Cons.IH [OF same Cons.prems(2,3)] Cons.prems(4) U' show ?thesis
          by (simp add: all)
      qed
    next
      case False
      show ?thesis
      proof (cases "sg \<in> set xs")
        case True
        with step Some False Cons.prems(2) have "w1 = w"
          by simp
        moreover from True have "?U' = ?U"
          by (auto simp: pres)
        ultimately show ?thesis
          using Cons.IH [OF Cons.prems(1,2,3)] Cons.prems(4) by (simp add: all)
      next
        case new: False
        let ?p1 = "p\<lparr> signatures := map sig_entry (xs @ [sg]) \<rparr>"
        from step Some False Cons.prems(2) new have w1: "pending_file w1 = Some ?p1"
          by simp
        have 2: "signatures ?p1 = map sig_entry (xs @ [sg])"
          by simp
        have 3: "distinct (xs @ [sg])"
          using Cons.prems(3) new by simp
        have U1: "set (xs @ [sg]) \<union> set (presented_all calls (hashTxId ?p1)) = ?U"
          by (auto simp: pres)
        have 4: "int (card (set (xs @ [sg]) \<union> set (presented_all calls (hashTxId ?p1)))) <
                 requiredSignatures ?p1"
          using Cons.prems(4) unfolding U1 by simp
        from Cons.IH [OF w1 2 3 4] show ?thesis
          unfolding U1 by (simp add: all)
      qed
    qed
  qed
qed

subsection \<open>Evaluating sign on the examples\<close>

lemma ex_presented:
  "k \<noteq> [] \<Longrightarrow> presented (ex_call tag k sendNow) h = Some (ex_sig tag k)"
  by (simp add: presented_def ex_call_def ex_env_def ex_sig_def)

lemma ex_sign_below:
  assumes "pending_file w = Some (ex_pending r ss)" and "int (length ss) + 1 < r" and "k \<noteq> []"
  shows "sign (ex_env (Inr ex_response) tag) \<lparr> pk = Some k \<rparr> [] sendNow w =
           (NeedMore (r - (int (length ss) + 1)),
            if sig_entry (ex_sig tag k) \<in> set ss then w
            else w\<lparr> pending_file := Some (ex_pending r (ss @ [sig_entry (ex_sig tag k)])) \<rparr>)"
proof -
  obtain out w' where s: "sign (ex_env (Inr ex_response) tag) \<lparr> pk = Some k \<rparr> [] sendNow w = (out, w')"
    by (cases "sign (ex_env (Inr ex_response) tag) \<lparr> pk = Some k \<rparr> [] sendNow w")
  from sign_cases [OF assms(1) s] assms(2,3) ex_presented [of k tag sendNow]
  show ?thesis
    by (simp add: s ex_call_def ex_pending_fields) (simp add: ex_pending_def)
qed

lemma ex_crypto:
  "fromPrivateKey (ex_env sent tag) k = Inr (''0xaddr_'' @ k)"
  "signMessage (ex_env sent tag) k h = Inr (tag @ k)"
  by (simp_all add: ex_env_def)

lemma ex_sign_declined:
  assumes "pending_file w = Some (ex_pending r ss)" and "int (length ss) + 1 \<ge> r" and "k \<noteq> []"
  shows "sign (ex_env sent tag) \<lparr> pk = Some k \<rparr> [] False w = (ThresholdNotSent (ex_sig tag k), w)"
  using assms
  by (simp add: sign_def hasPendingTransaction_def loadPendingTransaction_def ex_pending_fields
      ex_sig_def ex_crypto Let_def)

lemma ex_sign_sent:
  assumes "pending_file w = Some (ex_pending r ss)" and "int (length ss) + 1 \<ge> r" and "k \<noteq> []"
  shows "sign (ex_env (Inr ex_response) tag) \<lparr> pk = Some k \<rparr> [] True w =
           (ThresholdSent \<lparr> transactionId = ''0xid'', status = ''success'' \<rparr>,
            \<lparr> pending_file = None,
              submissions = submissions w @ [[ex_encode (SigObj (ex_sig tag k))]] \<rparr>)"
  using assms
  by (simp add: sign_def hasPendingTransaction_def loadPendingTransaction_def ex_pending_fields
      ex_crypto ex_loadWallet ex_loadNetwork ex_sendTransaction_ok [OF assms(1)] ex_sig_def
      Let_def)

lemma ex_two_signatures_one_signer:
  "sign_all [ex_call ''0xsig_'' ''k1'' False, ex_call ''0xSIG2_'' ''k1'' False] (ex_world 3 []) =
     ex_world 3 [sig_entry (ex_sig ''0xsig_'' ''k1''), sig_entry (ex_sig ''0xSIG2_'' ''k1'')]"
proof -
  have 1: "snd (sign (ex_env (Inr ex_response) ''0xsig_'') \<lparr> pk = Some ''k1'' \<rparr> [] False (ex_world 3 [])) =
           ex_world 3 [sig_entry (ex_sig ''0xsig_'' ''k1'')]"
    by (subst ex_sign_below [where r = 3 and ss = "[]"]) (simp_all add: ex_world_def)
  have 2: "snd (sign (ex_env (Inr ex_response) ''0xSIG2_'') \<lparr> pk = Some ''k1'' \<rparr> [] False
                 (ex_world 3 [sig_entry (ex_sig ''0xsig_'' ''k1'')])) =
           ex_world 3 [sig_entry (ex_sig ''0xsig_'' ''k1''), sig_entry (ex_sig ''0xSIG2_'' ''k1'')]"
    by (subst ex_sign_below [where r = 3 and ss = "[sig_entry (ex_sig ''0xsig_'' ''k1'')]"])
       (simp_all add: ex_world_def ex_sig_def)
  show ?thesis
    by (simp add: ex_call_def 1 2)
qed


lemma ex_three_calls_two_signers:
  "sign_all [ex_call ''0xsig_'' ''k1'' False, ex_call ''0xsig_'' ''k2'' False,
             ex_call ''0xsig_'' ''k1'' False] (ex_world 4 []) =
     ex_world 4 [sig_entry (ex_sig ''0xsig_'' ''k1''), sig_entry (ex_sig ''0xsig_'' ''k2'')]"
proof -
  let ?e1 = "sig_entry (ex_sig ''0xsig_'' ''k1'')" and ?e2 = "sig_entry (ex_sig ''0xsig_'' ''k2'')"
  let ?env = "ex_env (Inr ex_response) ''0xsig_''"
  have 1: "snd (sign ?env \<lparr> pk = Some ''k1'' \<rparr> [] False (ex_world 4 [])) = ex_world 4 [?e1]"
    by (subst ex_sign_below [where r = 4 and ss = "[]"]) (simp_all add: ex_world_def)
  have 2: "snd (sign ?env \<lparr> pk = Some ''k2'' \<rparr> [] False (ex_world 4 [?e1])) = ex_world 4 [?e1, ?e2]"
    by (subst ex_sign_below [where r = 4 and ss = "[?e1]"])
       (simp_all add: ex_world_def ex_sig_def)
  have 3: "snd (sign ?env \<lparr> pk = Some ''k1'' \<rparr> [] False (ex_world 4 [?e1, ?e2])) =
           ex_world 4 [?e1, ?e2]"
    by (subst ex_sign_below [where r = 4 and ss = "[?e1, ?e2]"])
       (simp_all add: ex_world_def ex_sig_def)
  show ?thesis
    by (simp add: ex_call_def 1 2 3)
qed

lemma ex_threshold_signature_not_persisted:
  "sign_all [ex_call ''0xsig_'' ''k1'' False, ex_call ''0xsig_'' ''k2'' False] (ex_world 2 []) =
     ex_world 2 [sig_entry (ex_sig ''0xsig_'' ''k1'')]"
proof -
  let ?e1 = "sig_entry (ex_sig ''0xsig_'' ''k1'')"
  let ?env = "ex_env (Inr ex_response) ''0xsig_''"
  have 1: "snd (sign ?env \<lparr> pk = Some ''k1'' \<rparr> [] False (ex_world 2 [])) = ex_world 2 [?e1]"
    by (subst ex_sign_below [where r = 2 and ss = "[]"]) (simp_all add: ex_world_def)
  have 2: "snd (sign ?env \<lparr> pk = Some ''k2'' \<rparr> [] False (ex_world 2 [?e1])) = ex_world 2 [?e1]"
    by (subst ex_sign_declined [where r = 2 and ss = "[?e1]"]) (simp_all add: ex_world_def)
  show ?thesis
    by (simp add: ex_call_def 1 2)
qed

lemma ex_two_signers_below_threshold:
  "sign_all [ex_call ''0xsig_'' ''k1'' False, ex_call ''0xsig_'' ''k2'' False] (ex_world 3 []) =
     ex_world 3 [sig_entry (ex_sig ''0xsig_'' ''k1''), sig_entry (ex_sig ''0xsig_'' ''k2'')]"
proof -
  let ?e1 = "sig_entry (ex_sig ''0xsig_'' ''k1'')" and ?e2 = "sig_entry (ex_sig ''0xsig_'' ''k2'')"
  let ?env = "ex_env (Inr ex_response) ''0xsig_''"
  have 1: "snd (sign ?env \<lparr> pk = Some ''k1'' \<rparr> [] False (ex_world 3 [])) = ex_world 3 [?e1]"
    by (subst ex_sign_below [where r = 3 and ss = "[]"]) (simp_all add: ex_world_def)
  have 2: "snd (sign ?env \<lparr> pk = Some ''k2'' \<rparr> [] False (ex_world 3 [?e1])) = ex_world 3 [?e1, ?e2]"
    by (subst ex_sign_below [where r = 3 and ss = "[?e1]"])
       (simp_all add: ex_world_def ex_sig_def)
  show ?thesis
    by (simp add: ex_call_def 1 2)
qed

lemma uniqueCount_strings: "uniqueCount (map sig_entry (s # ss)) = 1"
  by (induction ss) (simp_all add: uniqueCount_def sig_entry_def)

subsection \<open>What sign persists\<close>

text \<open>
  C2, as the code has it. \<^verbatim>\<open>sign\<close> compares the whole stringified entry, signer and
  signature bytes together (\<^verbatim>\<open>pending.signatures.includes(sigEntry)\<close>), not the
  signer. Over any sequence of invocations that leaves a pending transaction, the stored
  list only grows at its end (every stored entry keeps its place and its content, so the
  first signature of a signer is never replaced), every appended entry is a stringified
  signature, and a list without two equal entries stays so; two entries are equal exactly
  when signer and signature are both equal. Nothing else of the record changes. In one
  invocation below the threshold, the signature made is appended unless the same entry
  is stored already, and then nothing changes.
\<close>

theorem sign_all_keeps_entries:
  assumes "pending_file w = Some p" and "pending_file (sign_all calls w) = Some p'"
  shows "(\<exists>ys. p' = p\<lparr> signatures := signatures p @ ys \<rparr> \<and> set ys \<subseteq> range sig_entry) \<and>
         (distinct (signatures p) \<longrightarrow> distinct (signatures p')) \<and>
         (sig_entry a = sig_entry b \<longleftrightarrow> signer a = signer b \<and> signature a = signature b) \<and>
         (presented (env, options, typed_pk, sendNow) (hashTxId p) = Some s \<and>
          int (length (signatures p)) + 1 < requiredSignatures p \<longrightarrow>
            snd (sign env options typed_pk sendNow w) =
              (if sig_entry s \<in> set (signatures p) then w
               else w\<lparr> pending_file :=
                      Some (p\<lparr> signatures := signatures p @ [sig_entry s] \<rparr>) \<rparr>))"
proof -
  from sign_all_extends [OF assms(1), of calls] assms(2)
  obtain ys where "p' = p\<lparr> signatures := signatures p @ ys \<rparr>" "set ys \<subseteq> range sig_entry"
    "distinct (signatures p) \<longrightarrow> distinct (signatures p @ ys)"
    by auto
  then have seq: "(\<exists>ys. p' = p\<lparr> signatures := signatures p @ ys \<rparr> \<and> set ys \<subseteq> range sig_entry) \<and>
      (distinct (signatures p) \<longrightarrow> distinct (signatures p'))"
    by auto
  have eq: "sig_entry a = sig_entry b \<longleftrightarrow> signer a = signer b \<and> signature a = signature b"
    by auto
  obtain out w1 where s: "sign env options typed_pk sendNow w = (out, w1)"
    by (cases "sign env options typed_pk sendNow w")
  from sign_cases [OF assms(1) s]
  have step: "presented (env, options, typed_pk, sendNow) (hashTxId p) = Some s \<and>
      int (length (signatures p)) + 1 < requiredSignatures p \<longrightarrow>
        snd (sign env options typed_pk sendNow w) =
          (if sig_entry s \<in> set (signatures p) then w
           else w\<lparr> pending_file :=
                  Some (p\<lparr> signatures := signatures p @ [sig_entry s] \<rparr>) \<rparr>)"
    by (auto simp: s)
  from seq eq step show ?thesis
    by blast
qed

text \<open>
  The witness: \<open>k1\<close>, \<open>k2\<close>, then \<open>k1\<close> again with the same signature, of four
  required; the third invocation appends nothing.
\<close>

theorem sign_all_keeps_entries_witness:
  "sign_all [ex_call ''0xsig_'' ''k1'' False, ex_call ''0xsig_'' ''k2'' False,
             ex_call ''0xsig_'' ''k1'' False] (ex_world 4 []) =
     ex_world 4 [sig_entry (ex_sig ''0xsig_'' ''k1''), sig_entry (ex_sig ''0xsig_'' ''k2'')] \<and>
   distinct [sig_entry (ex_sig ''0xsig_'' ''k1''), sig_entry (ex_sig ''0xsig_'' ''k2'')]"
proof -
  let ?calls = "[ex_call ''0xsig_'' ''k1'' False, ex_call ''0xsig_'' ''k2'' False,
                 ex_call ''0xsig_'' ''k1'' False]"
  let ?ss = "[sig_entry (ex_sig ''0xsig_'' ''k1''), sig_entry (ex_sig ''0xsig_'' ''k2'')]"
  have a: "pending_file (ex_world 4 []) = Some (ex_pending 4 [])"
    by (simp add: ex_world_def)
  have b: "pending_file (sign_all ?calls (ex_world 4 [])) = Some (ex_pending 4 ?ss)"
    by (simp only: ex_three_calls_two_signers) (simp add: ex_world_def)
  from sign_all_keeps_entries [OF a b]
  have "distinct (signatures (ex_pending 4 [])) \<longrightarrow> distinct (signatures (ex_pending 4 ?ss))"
    by blast
  then have "distinct ?ss"
    by (simp add: ex_pending_fields)
  with ex_three_calls_two_signers show ?thesis
    by blast
qed

text \<open>
  The counterexample to C2 as stated: the signer \<open>0xaddr_k1\<close> signs twice, the second
  time with other signature bytes, of three required. The second entry is appended: the
  list holds two entries of one signer. (Read with \<^verbatim>\<open>s.signer\<close>, as \<^verbatim>\<open>send-tx\<close>
  reads the list, both entries give \<open>undefined\<close>.)
\<close>

theorem sign_same_signer_twice_counterexample:
  "sign_all [ex_call ''0xsig_'' ''k1'' False, ex_call ''0xSIG2_'' ''k1'' False] (ex_world 3 []) =
     ex_world 3
       [SigStr (stringify_signature \<lparr> signer = ''0xaddr_k1'', signature = ''0xsig_k1'' \<rparr>),
        SigStr (stringify_signature \<lparr> signer = ''0xaddr_k1'', signature = ''0xSIG2_k1'' \<rparr>)] \<and>
   presented_all [ex_call ''0xsig_'' ''k1'' False, ex_call ''0xSIG2_'' ''k1'' False] ''0xhash'' =
     [\<lparr> signer = ''0xaddr_k1'', signature = ''0xsig_k1'' \<rparr>,
      \<lparr> signer = ''0xaddr_k1'', signature = ''0xSIG2_k1'' \<rparr>] \<and>
   distinct (map signer_of (signatures (ex_pending 3 []))) \<and>
   \<not> distinct (map signer_of
      [SigStr (stringify_signature \<lparr> signer = ''0xaddr_k1'', signature = ''0xsig_k1'' \<rparr>),
       SigStr (stringify_signature \<lparr> signer = ''0xaddr_k1'', signature = ''0xSIG2_k1'' \<rparr>)])"
  using ex_two_signatures_one_signer
  by (simp add: sig_entry_def ex_sig_def presented_all_Cons [folded ex_call_def] ex_presented
      presented_all_def ex_pending_fields)

text \<open>
  C3, as the code has it. Take a pending transaction without signatures and a sequence of
  invocations in which a signer always presents the same signature bytes, and let \<open>k\<close>
  be the number of distinct signers, with \<open>k\<close> strictly below the required count. Then
  the stored list ends with exactly one entry for each distinct signer (\<open>k\<close> entries,
  the stringified signatures presented), whatever the order and the repetitions; unless
  the transaction has been sent and deleted meanwhile, which can happen only for
  \<open>k + 1 = required\<close>, when a repeated signature counts as reaching the threshold.
  A signature presented when the stored entries plus one reach the required count is
  not stored, so for \<open>k = required\<close> the last signer is missing from the file.
\<close>

theorem sign_all_persists_each_signer_once:
  assumes "pending_file w = Some p" and "signatures p = []"
    and "inj_on signer (set (presented_all calls (hashTxId p)))"
    and "int (card (signer ` set (presented_all calls (hashTxId p)))) < requiredSignatures p"
  shows "(pending_file (sign_all calls w) = None \<and>
          int (card (signer ` set (presented_all calls (hashTxId p)))) + 1 = requiredSignatures p) \<or>
         (\<exists>p'. pending_file (sign_all calls w) = Some p' \<and>
            p' = p\<lparr> signatures := signatures p' \<rparr> \<and>
            length (signatures p') = card (signer ` set (presented_all calls (hashTxId p))) \<and>
            set (signatures p') = sig_entry ` set (presented_all calls (hashTxId p)))"
proof -
  let ?S = "set (presented_all calls (hashTxId p))"
  have c: "card (signer ` ?S) = card ?S"
    using assms(3) by (rule card_image)
  have "signatures p = map sig_entry []" "distinct ([] :: Signature list)"
    using assms(2) by simp_all
  from sign_all_collects [OF assms(1) this, of calls] assms(4) c
  consider "pending_file (sign_all calls w) = None" "int (card ?S) + 1 = requiredSignatures p"
    | ys where "pending_file (sign_all calls w) = Some (p\<lparr> signatures := map sig_entry ys \<rparr>)"
        "distinct ys" "set ys = ?S"
    by auto
  then show ?thesis
  proof cases
    case 1
    then show ?thesis by (simp add: c)
  next
    case (2 ys)
    have "length (map sig_entry ys) = card ?S"
      using distinct_card [OF 2(2)] 2(3) by simp
    with 2 show ?thesis
      by (simp add: c)
  qed
qed

lemma ex_presented_all_3:
  "presented_all [ex_call ''0xsig_'' ''k1'' False, ex_call ''0xsig_'' ''k2'' False,
                  ex_call ''0xsig_'' ''k1'' False] h =
     [ex_sig ''0xsig_'' ''k1'', ex_sig ''0xsig_'' ''k2'', ex_sig ''0xsig_'' ''k1'']"
  by (simp add: presented_all_def ex_presented)

lemma ex_presented_all_2:
  "presented_all [ex_call ''0xsig_'' ''k1'' False, ex_call ''0xsig_'' ''k2'' False] h =
     [ex_sig ''0xsig_'' ''k1'', ex_sig ''0xsig_'' ''k2'']"
  by (simp add: presented_all_def ex_presented)

text \<open>The witness: \<open>k1\<close>, \<open>k2\<close>, \<open>k1\<close> of four required leave two entries.\<close>

theorem sign_all_persists_each_signer_once_witness:
  "pending_file
     (sign_all [ex_call ''0xsig_'' ''k1'' False, ex_call ''0xsig_'' ''k2'' False,
                ex_call ''0xsig_'' ''k1'' False] (ex_world 4 [])) =
     Some (ex_pending 4 [sig_entry (ex_sig ''0xsig_'' ''k1''), sig_entry (ex_sig ''0xsig_'' ''k2'')]) \<and>
   card (signer ` set (presented_all
      [ex_call ''0xsig_'' ''k1'' False, ex_call ''0xsig_'' ''k2'' False,
       ex_call ''0xsig_'' ''k1'' False] ''0xhash'')) = 2"
proof -
  let ?calls = "[ex_call ''0xsig_'' ''k1'' False, ex_call ''0xsig_'' ''k2'' False,
                 ex_call ''0xsig_'' ''k1'' False]"
  let ?S = "set (presented_all ?calls (hashTxId (ex_pending 4 [])))"
  have a: "pending_file (ex_world 4 []) = Some (ex_pending 4 [])"
    by (simp add: ex_world_def)
  have b: "signatures (ex_pending 4 []) = []"
    by (simp add: ex_pending_fields)
  have c: "inj_on signer ?S"
    by (auto simp: ex_presented_all_3 ex_sig_def inj_on_def)
  have "signer ` ?S = {''0xaddr_k1'', ''0xaddr_k2''}"
    by (auto simp: ex_presented_all_3 ex_sig_def)
  then have n: "card (signer ` ?S) = 2"
    by simp
  have d: "int (card (signer ` ?S)) < requiredSignatures (ex_pending 4 [])"
    using n by (simp add: ex_pending_fields)
  have e: "pending_file (sign_all ?calls (ex_world 4 [])) =
             Some (ex_pending 4 [sig_entry (ex_sig ''0xsig_'' ''k1''),
                                 sig_entry (ex_sig ''0xsig_'' ''k2'')])"
    by (simp only: ex_three_calls_two_signers) (simp add: ex_world_def)
  from sign_all_persists_each_signer_once [OF a b c d] e n show ?thesis
    by (simp add: ex_pending_fields)
qed

text \<open>
  The counterexample to C3 as stated. Two distinct signers of two required
  (\<open>k = required\<close>): the second signature reaches the threshold and is not stored, so
  the file holds one entry and the count of \<^verbatim>\<open>send-tx\<close> is 1, not 2. Two distinct
  signers of three required: both entries are stored, as strings, and the count of
  \<^verbatim>\<open>send-tx\<close>, which reads \<^verbatim>\<open>s.signer\<close>, is 1, not 2.
\<close>

theorem sign_all_unique_count_counterexample:
  "sign_all [ex_call ''0xsig_'' ''k1'' False, ex_call ''0xsig_'' ''k2'' False] (ex_world 2 []) =
     ex_world 2 [SigStr (stringify_signature \<lparr> signer = ''0xaddr_k1'', signature = ''0xsig_k1'' \<rparr>)] \<and>
   uniqueCount [SigStr (stringify_signature \<lparr> signer = ''0xaddr_k1'', signature = ''0xsig_k1'' \<rparr>)] = 1 \<and>
   sign_all [ex_call ''0xsig_'' ''k1'' False, ex_call ''0xsig_'' ''k2'' False] (ex_world 3 []) =
     ex_world 3
       [SigStr (stringify_signature \<lparr> signer = ''0xaddr_k1'', signature = ''0xsig_k1'' \<rparr>),
        SigStr (stringify_signature \<lparr> signer = ''0xaddr_k2'', signature = ''0xsig_k2'' \<rparr>)] \<and>
   uniqueCount
       [SigStr (stringify_signature \<lparr> signer = ''0xaddr_k1'', signature = ''0xsig_k1'' \<rparr>),
        SigStr (stringify_signature \<lparr> signer = ''0xaddr_k2'', signature = ''0xsig_k2'' \<rparr>)] = 1 \<and>
   card (signer ` set (presented_all
      [ex_call ''0xsig_'' ''k1'' False, ex_call ''0xsig_'' ''k2'' False] ''0xhash'')) = 2"
  using ex_threshold_signature_not_persisted ex_two_signers_below_threshold
  by (simp add: sig_entry_def ex_sig_def ex_presented_all_2 uniqueCount_def)

subsection \<open>What sendTransaction submits\<close>

lemma sendTransaction_ignores_stored:
  assumes "pending_file w = Some p" and "sendTransaction env cfg sigs w = (r, w')"
  shows "\<exists>w''. sendTransaction env cfg sigs
                  (w\<lparr> pending_file := Some (p\<lparr> signatures := other, requiredSignatures := n \<rparr>) \<rparr>) =
                  (r, w'') \<and> submissions w'' = submissions w'"
  using assms
  by (auto simp: sendTransaction_def loadPendingTransaction_def deletePendingTransaction_def
      hasPendingTransaction_def Let_def split: sum.splits prod.splits)

text \<open>
  C5, as the code has it. \<^verbatim>\<open>sendTransaction\<close> merges nothing and checks no
  threshold: it loads the pending transaction for its recipient, amount and asset only.
  Whatever signatures and whatever required count the store holds, the result and the
  submission are the same. A submission, when there is one, is the list of witnesses
  that the vault of the configuration encodes from the signatures of the argument, one
  for each, in the order of the argument, without deduplication. And whenever the vault
  is built, the transaction rebuilt and the argument encoded, that list is submitted and
  the result is what \<^verbatim>\<open>vault.send\<close> and \<^verbatim>\<open>waitForResult\<close> give, for every argument,
  the empty list included.
\<close>

theorem sendTransaction_submits_its_argument:
  assumes "pending_file w = Some p" and "sendTransaction env cfg sigs w = (r, w')"
  shows "(\<exists>w''. sendTransaction env cfg sigs
                   (w\<lparr> pending_file :=
                        Some (p\<lparr> signatures := other, requiredSignatures := n \<rparr>) \<rparr>) = (r, w'') \<and>
                 submissions w'' = submissions w') \<and>
         ((submissions w' = submissions w \<and> isl r) \<or>
          (\<exists>v ws.
              createVaultInstance env cfg = Inr v \<and>
              encode_witnesses v sigs = Inr ws \<and>
              list_all2 (\<lambda>s e. encodeSignature v (signer_of s) (signature_of s) = Inr e) sigs ws \<and>
              submissions w' = submissions w @ [ws])) \<and>
         (createVaultInstance env cfg = Inr vlt \<and>
          vault_transaction vlt
            (or_else (assetId (transaction p)) (ETH (assets (network cfg))))
            (amount (transaction p)) (to (transaction p)) = Inr (t, h) \<and>
          encode_witnesses vlt sigs = Inr enc \<longrightarrow>
            submissions w' = submissions w @ [enc] \<and>
            r = (case send vlt (t\<lparr> witnesses := enc \<rparr>) of
                   Inl e \<Rightarrow> Inl e
                 | Inr response \<Rightarrow>
                     (case waitForResult response of
                        Inl e \<Rightarrow> Inl e
                      | Inr st \<Rightarrow> Inr \<lparr> transactionId = response_id response,
                                       status = or_else st ''success'' \<rparr>)))"
proof (intro conjI impI)
  show "\<exists>w''. sendTransaction env cfg sigs
                 (w\<lparr> pending_file :=
                      Some (p\<lparr> signatures := other, requiredSignatures := n \<rparr>) \<rparr>) = (r, w'') \<and>
               submissions w'' = submissions w'"
    by (rule sendTransaction_ignores_stored [OF assms])
next
  from sendTransaction_submissions [OF assms(2)]
  show "(submissions w' = submissions w \<and> isl r) \<or>
        (\<exists>v ws.
            createVaultInstance env cfg = Inr v \<and>
            encode_witnesses v sigs = Inr ws \<and>
            list_all2 (\<lambda>s e. encodeSignature v (signer_of s) (signature_of s) = Inr e) sigs ws \<and>
            submissions w' = submissions w @ [ws])"
  proof (elim disjE exE conjE)
    fix v ws
    assume 1: "createVaultInstance env cfg = Inr v"
      and 2: "encode_witnesses v sigs = Inr ws"
      and 3: "submissions w' = submissions w @ [ws]"
    from 1 2 3 encode_witnesses_all2 [OF 2] show ?thesis
      by (intro disjI2 exI [of _ v] exI [of _ ws]) simp
  qed simp
next
  assume e: "createVaultInstance env cfg = Inr vlt \<and>
      vault_transaction vlt
        (or_else (assetId (transaction p)) (ETH (assets (network cfg))))
        (amount (transaction p)) (to (transaction p)) = Inr (t, h) \<and>
      encode_witnesses vlt sigs = Inr enc"
  then have e1: "createVaultInstance env cfg = Inr vlt"
    and e2: "vault_transaction vlt
        (or_else (assetId (transaction p)) (ETH (assets (network cfg))))
        (amount (transaction p)) (to (transaction p)) = Inr (t, h)"
    and e3: "encode_witnesses vlt sigs = Inr enc"
    by blast+
  note s = sendTransaction_submits [OF assms(1) e1 e2 e3]
  from s [THEN conjunct1] show "submissions w' = submissions w @ [enc]"
    by (simp only: assms(2) snd_conv)
  from s [THEN conjunct2]
  show "r = (case send vlt (t\<lparr> witnesses := enc \<rparr>) of
               Inl e \<Rightarrow> Inl e
             | Inr response \<Rightarrow>
                 (case waitForResult response of
                    Inl e \<Rightarrow> Inl e
                  | Inr st \<Rightarrow> Inr \<lparr> transactionId = response_id response,
                                   status = or_else st ''success'' \<rparr>))"
    by (simp only: assms(2) fst_conv)
qed

text \<open>
  The witness, with two signatures required: the signature of \<open>k2\<close> is given and the
  witness of \<open>k2\<close> alone is submitted, with the signature of \<open>k1\<close> in the store or
  with an empty store; no signature is given and the empty list is submitted.
\<close>

theorem sendTransaction_submits_its_argument_witness:
  "sendTransaction (ex_env (Inr ex_response) ''0xsig_'') ex_config [SigObj sig_k2]
      (ex_world 2 [SigObj sig_k1]) =
     (Inr \<lparr> transactionId = ''0xid'', status = ''success'' \<rparr>,
      \<lparr> pending_file = None, submissions = [[''0xaddr_k2:0xsig_k2'']] \<rparr>) \<and>
   sendTransaction (ex_env (Inr ex_response) ''0xsig_'') ex_config [SigObj sig_k2]
      (ex_world 2 []) =
     (Inr \<lparr> transactionId = ''0xid'', status = ''success'' \<rparr>,
      \<lparr> pending_file = None, submissions = [[''0xaddr_k2:0xsig_k2'']] \<rparr>) \<and>
   sendTransaction (ex_env (Inr ex_response) ''0xsig_'') ex_config []
      (ex_world 2 [SigObj sig_k1]) =
     (Inr \<lparr> transactionId = ''0xid'', status = ''success'' \<rparr>,
      \<lparr> pending_file = None, submissions = [[]] \<rparr>)"
proof -
  have a: "pending_file (ex_world 2 ss) = Some (ex_pending 2 ss)" for ss
    by (simp add: ex_world_def)
  have b: "sendTransaction (ex_env (Inr ex_response) ''0xsig_'') ex_config [SigObj sig_k2]
             (ex_world 2 ss) =
           (Inr \<lparr> transactionId = ''0xid'', status = ''success'' \<rparr>,
            \<lparr> pending_file = None, submissions = [[''0xaddr_k2:0xsig_k2'']] \<rparr>)" for ss
    by (subst ex_sendTransaction_ok [OF a]) (simp add: ex_world_def ex_encode_def sig_k2_def)
  have c: "sendTransaction (ex_env (Inr ex_response) ''0xsig_'') ex_config []
             (ex_world 2 [SigObj sig_k1]) =
           (Inr \<lparr> transactionId = ''0xid'', status = ''success'' \<rparr>,
            \<lparr> pending_file = None, submissions = [[]] \<rparr>)"
    by (subst ex_sendTransaction_ok [OF a]) (simp add: ex_world_def)
  from sendTransaction_submits_its_argument [OF a b, where other = "[]" and n = 1] b c
  show ?thesis
    by simp
qed

text \<open>
  The counterexample to C5 as stated: two signatures are required and the store holds
  the one of \<open>k1\<close>. \<^verbatim>\<open>sign\<close> with the key \<open>k2\<close>, answered \<^verbatim>\<open>yes\<close> at
  \<^verbatim>\<open>Send transaction now?\<close>, calls \<^verbatim>\<open>sendTransaction\<close> with the new signature, and
  so does a direct call: the submission holds the witness of \<open>k2\<close> and not the one of
  \<open>k1\<close>, not the union.
\<close>

theorem send_does_not_merge_counterexample:
  "sign (ex_env (Inr ex_response) ''0xsig_'') \<lparr> pk = Some ''k2'' \<rparr> [] True
      (ex_world 2 [SigStr (stringify_signature \<lparr> signer = ''0xaddr_k1'', signature = ''0xsig_k1'' \<rparr>)]) =
     (ThresholdSent \<lparr> transactionId = ''0xid'', status = ''success'' \<rparr>,
      \<lparr> pending_file = None, submissions = [[''0xaddr_k2:0xsig_k2'']] \<rparr>) \<and>
   sendTransaction (ex_env (Inr ex_response) ''0xsig_'') ex_config
      [SigObj \<lparr> signer = ''0xaddr_k2'', signature = ''0xsig_k2'' \<rparr>]
      (ex_world 2 [SigObj \<lparr> signer = ''0xaddr_k1'', signature = ''0xsig_k1'' \<rparr>]) =
     (Inr \<lparr> transactionId = ''0xid'', status = ''success'' \<rparr>,
      \<lparr> pending_file = None, submissions = [[''0xaddr_k2:0xsig_k2'']] \<rparr>)"
proof -
  have a: "pending_file (ex_world 2 ss) = Some (ex_pending 2 ss)" for ss
    by (simp add: ex_world_def)
  have "sign (ex_env (Inr ex_response) ''0xsig_'') \<lparr> pk = Some ''k2'' \<rparr> [] True
          (ex_world 2 [sig_entry (ex_sig ''0xsig_'' ''k1'')]) =
        (ThresholdSent \<lparr> transactionId = ''0xid'', status = ''success'' \<rparr>,
         \<lparr> pending_file = None, submissions = [[''0xaddr_k2:0xsig_k2'']] \<rparr>)"
    by (subst ex_sign_sent [OF a]) (simp_all add: ex_world_def ex_encode_def ex_sig_def)
  moreover have "sendTransaction (ex_env (Inr ex_response) ''0xsig_'') ex_config
      [SigObj \<lparr> signer = ''0xaddr_k2'', signature = ''0xsig_k2'' \<rparr>]
      (ex_world 2 [SigObj \<lparr> signer = ''0xaddr_k1'', signature = ''0xsig_k1'' \<rparr>]) =
     (Inr \<lparr> transactionId = ''0xid'', status = ''success'' \<rparr>,
      \<lparr> pending_file = None, submissions = [[''0xaddr_k2:0xsig_k2'']] \<rparr>)"
    by (subst ex_sendTransaction_ok [OF a]) (simp add: ex_world_def ex_encode_def)
  ultimately show ?thesis
    by (simp add: sig_entry_def ex_sig_def)
qed

subsection \<open>The threshold in sign\<close>




subsection \<open>Sending below the threshold\<close>

text \<open>
  What \<^verbatim>\<open>send-tx\<close> does below its count: it reports the count and the required
  number and changes nothing. On a list of \<^verbatim>\<open>Signature\<close> objects, the shape
  \<^verbatim>\<open>types.ts\<close> declares, the count is the number of distinct signers.
\<close>

lemma sendTx_refuses_below_count:
  "pending_file w = Some p \<Longrightarrow> int (uniqueCount (signatures p)) < requiredSignatures p \<Longrightarrow>
   sendTx env options confirm w =
     (InsufficientSignatures (int (uniqueCount (signatures p))) (requiredSignatures p), w)"
  by (simp add: sendTx_def hasPendingTransaction_def loadPendingTransaction_def)

lemma uniqueCount_objects: "uniqueCount (map SigObj ss) = card (signer ` set ss)"
proof -
  have "map signer_of (map SigObj ss) = map (\<lambda>s. Some (signer s)) ss"
    by simp
  then have "uniqueCount (map SigObj ss) = card (set (map (\<lambda>s. Some (signer s)) ss))"
    by (simp add: uniqueCount_def length_remdups_card_conv del: map_map set_map)
  also have "\<dots> = card (Some ` signer ` set ss)"
    by (simp add: image_image)
  also have "\<dots> = card (signer ` set ss)"
    by (rule card_image) simp
  finally show ?thesis .
qed


text \<open>
  C4 fails on the stores \<^verbatim>\<open>sign\<close> writes, which hold strings: \<^verbatim>\<open>s.signer\<close> is
  \<open>undefined\<close> on each, so the count is 1 for any number of signers. Two signers sign,
  three are required: \<^verbatim>\<open>send-tx\<close> refuses and keeps the store, and reports
  \<open>have = 1\<close>, not 2. And one signer, stored once as an object and once as a string, two
  required: the count is 2, and the transaction is sent and the store deleted.
\<close>

theorem sendTx_counts_stored_strings_as_one:
  "sign_all [ex_call ''0xsig_'' ''k1'' False, ex_call ''0xsig_'' ''k2'' False] (ex_world 3 []) =
     ex_world 3
       [SigStr (stringify_signature \<lparr> signer = ''0xaddr_k1'', signature = ''0xsig_k1'' \<rparr>),
        SigStr (stringify_signature \<lparr> signer = ''0xaddr_k2'', signature = ''0xsig_k2'' \<rparr>)] \<and>
   sendTx (ex_env (Inr ex_response) ''0xsig_'') ex_send_options True
      (ex_world 3
         [SigStr (stringify_signature \<lparr> signer = ''0xaddr_k1'', signature = ''0xsig_k1'' \<rparr>),
          SigStr (stringify_signature \<lparr> signer = ''0xaddr_k2'', signature = ''0xsig_k2'' \<rparr>)]) =
     (InsufficientSignatures 1 3,
      ex_world 3
         [SigStr (stringify_signature \<lparr> signer = ''0xaddr_k1'', signature = ''0xsig_k1'' \<rparr>),
          SigStr (stringify_signature \<lparr> signer = ''0xaddr_k2'', signature = ''0xsig_k2'' \<rparr>)]) \<and>
   sendTx (ex_env (Inr ex_response) ''0xsig_'') ex_send_options True
      (ex_world 2
         [SigObj \<lparr> signer = ''0xaddr_k1'', signature = ''0xsig_k1'' \<rparr>,
          SigStr (stringify_signature \<lparr> signer = ''0xaddr_k1'', signature = ''0xsig_k1'' \<rparr>)]) =
     (Sent \<lparr> transactionId = ''0xid'', status = ''success'' \<rparr>,
      \<lparr> pending_file = None,
        submissions = [[''0xaddr_k1:0xsig_k1'', ''undefined:undefined'']] \<rparr>)"
proof (intro conjI)
  show "sign_all [ex_call ''0xsig_'' ''k1'' False, ex_call ''0xsig_'' ''k2'' False]
          (ex_world 3 []) =
        ex_world 3
          [SigStr (stringify_signature \<lparr> signer = ''0xaddr_k1'', signature = ''0xsig_k1'' \<rparr>),
           SigStr (stringify_signature \<lparr> signer = ''0xaddr_k2'', signature = ''0xsig_k2'' \<rparr>)]"
    using ex_two_signers_below_threshold by (simp add: sig_entry_def ex_sig_def)
next
  let ?ss = "[SigStr (stringify_signature \<lparr> signer = ''0xaddr_k1'', signature = ''0xsig_k1'' \<rparr>),
              SigStr (stringify_signature \<lparr> signer = ''0xaddr_k2'', signature = ''0xsig_k2'' \<rparr>)]"
  have a: "pending_file (ex_world 3 ?ss) = Some (ex_pending 3 ?ss)"
    by (simp add: ex_world_def)
  have c: "int (uniqueCount (signatures (ex_pending 3 ?ss))) < requiredSignatures (ex_pending 3 ?ss)"
    by (simp add: ex_pending_fields uniqueCount_def)
  from sendTx_refuses_below_count [OF a c]
  show "sendTx (ex_env (Inr ex_response) ''0xsig_'') ex_send_options True (ex_world 3 ?ss) =
          (InsufficientSignatures 1 3, ex_world 3 ?ss)"
    by (simp add: ex_pending_fields uniqueCount_def)
next
  let ?ss = "[SigObj \<lparr> signer = ''0xaddr_k1'', signature = ''0xsig_k1'' \<rparr>,
              SigStr (stringify_signature \<lparr> signer = ''0xaddr_k1'', signature = ''0xsig_k1'' \<rparr>)]"
  have a: "pending_file (ex_world 2 ?ss) = Some (ex_pending 2 ?ss)"
    by (simp add: ex_world_def)
  have "sendTx (ex_env (Inr ex_response) ''0xsig_'') ex_send_options True (ex_world 2 ?ss) =
        confirm_and_send (ex_env (Inr ex_response) ''0xsig_'') ex_send_options True
          (ex_pending 2 ?ss) ?ss (ex_world 2 ?ss)"
    by (rule ex_sendTx_ready [OF a]) (simp add: uniqueCount_def)
  then show "sendTx (ex_env (Inr ex_response) ''0xsig_'') ex_send_options True (ex_world 2 ?ss) =
        (Sent \<lparr> transactionId = ''0xid'', status = ''success'' \<rparr>,
         \<lparr> pending_file = None,
           submissions = [[''0xaddr_k1:0xsig_k1'', ''undefined:undefined'']] \<rparr>)"
    by (simp only: ex_confirm_and_send_ok [OF a]) (simp add: ex_world_def ex_encode_def)
qed

end
